theory Spec2Isabelle
  imports Main "HOL-Library.Word" "HOL-Library.Signed_Division"
begin

section \<open>The Gloo upstream-group router\<close>

text \<open>
  The repository holds three revisions of \<^verbatim>\<open>package router\<close>'s GlooRouter:
  \<^item> \<^verbatim>\<open>src/pkg/router/gloo.go\<close>, first document (lines 1-166): suffix \<open>_g1\<close>;
  \<^item> \<^verbatim>\<open>src/pkg/router/gloo.go\<close>, second document (lines 167-362): suffix \<open>_g2\<close>;
  \<^item> \<^verbatim>\<open>src/unnamed/part_000\<close>: suffix \<open>_p0\<close>.
  Each revision defines Reconcile, GetRoutes, SetRoutes and Finalize; every function below
  carries the suffix of the revision it is translated from. The lines written to
  \<^verbatim>\<open>gr.logger\<close> and the texts of the error messages are left out; the remote client is
  an explicit store that every function takes and returns.
\<close>

subsection \<open>Machine integers\<close>

text \<open>
  Go's \<^verbatim>\<open>uint32\<close> and \<^verbatim>\<open>int32\<close> are 32-bit words; Go's \<^verbatim>\<open>int\<close> is taken at its width on
  64-bit targets. Arithmetic on words wraps around, as Go's does.
\<close>

type_synonym uint32 = "32 word"
type_synonym int32 = "32 word"
type_synonym go_int = "64 word"

text \<open>\<^verbatim>\<open>a / b\<close> on Go's signed \<^verbatim>\<open>int\<close>: the quotient truncated towards zero.\<close>

definition go_div :: "go_int \<Rightarrow> go_int \<Rightarrow> go_int" where
  "go_div a b = word_of_int (sint a sdiv sint b)"

text \<open>The conversions \<^verbatim>\<open>int(x)\<close> of a uint32 (zero extension) and \<^verbatim>\<open>uint32(x)\<close> of an int
  (the low 32 bits).\<close>

definition int_of_uint32 :: "uint32 \<Rightarrow> go_int" where
  "int_of_uint32 x = ucast x"

definition uint32_of_int :: "go_int \<Rightarrow> uint32" where
  "uint32_of_int x = ucast x"

subsection \<open>Data model\<close>

text \<open>The fields of the gloov1 and flaggerv1 types that the router reads or writes.\<close>

record ResourceRef =
  Name :: string
  Namespace :: string

record Destination =
  Upstream :: ResourceRef

record WeightedDestination =
  Destination :: Destination
  Weight :: uint32

record UpstreamGroupSpec =
  Destinations :: "WeightedDestination list"

text \<open>An UpstreamGroup: the object metadata (name, namespace, resource version) and the
  spec.\<close>

record UpstreamGroup =
  ObjectMeta_Name :: string
  ObjectMeta_Namespace :: string
  ResourceVersion :: nat
  Spec :: UpstreamGroupSpec

text \<open>A Canary: \<^verbatim>\<open>canary.Name\<close>, \<^verbatim>\<open>canary.Namespace\<close>, \<^verbatim>\<open>canary.Spec.TargetRef.Name\<close> and
  \<^verbatim>\<open>canary.Spec.Service.Port\<close> (an int32).\<close>

record Canary =
  Canary_Name :: string
  Canary_Namespace :: string
  Spec_TargetRef_Name :: string
  Spec_Service_Port :: int32

text \<open>The zero value of WeightedDestination, which \<^verbatim>\<open>make\<close> fills a new slice with.\<close>

definition zero_WeightedDestination :: WeightedDestination where
  "zero_WeightedDestination =
     \<lparr>Destination = \<lparr>Upstream = \<lparr>Name = [], Namespace = []\<rparr>\<rparr>, Weight = 0\<rparr>"

text \<open>The composite literal
  \<^verbatim>\<open>WeightedDestination{Destination: Destination{Upstream: ResourceRef{Name: n, Namespace: ns}}, Weight: w}\<close>.\<close>

definition mk_WeightedDestination :: "string \<Rightarrow> string \<Rightarrow> uint32 \<Rightarrow> WeightedDestination" where
  "mk_WeightedDestination n ns w =
     \<lparr>Destination = \<lparr>Upstream = \<lparr>Name = n, Namespace = ns\<rparr>\<rparr>, Weight = w\<rparr>"

text \<open>\<^verbatim>\<open>dst.Destination.Upstream.Name\<close>.\<close>

definition upstream_name :: "WeightedDestination \<Rightarrow> string" where
  "upstream_name dst = Name (Upstream (Destination dst))"

subsection \<open>Errors and panics\<close>

text \<open>What a call of the remote client fails with.\<close>

datatype api_error = NotFound | Conflict | Transport

text \<open>
  The error values the router returns, named as in the specification's taxonomy; each
  stands for one \<^verbatim>\<open>fmt.Errorf\<close> of the source:
  \<^item> \<open>GroupNotFound\<close>: "UpstreamGroup %s.%s not found";
  \<^item> \<open>QueryError e\<close>: "UpstreamGroup %s.%s get query error: %w" and "... query error: %w";
  \<^item> \<open>UpdateError e\<close>: "UpstreamGroup %s.%s update error: %w";
  \<^item> \<open>InsufficientDestinations\<close>: "UpstreamGroup %s.%s destinations not found";
  \<^item> \<open>DestinationNotFound\<close>: "UpstreamGroup %s.%s canary destination not found";
  \<^item> \<open>InvalidWeights\<close>: "RoutingRule %s.%s update failed: no valid weights".
  A returned \<^verbatim>\<open>nil\<close> is \<open>None\<close>.
\<close>

datatype error =
    GroupNotFound
  | QueryError api_error
  | UpdateError api_error
  | InsufficientDestinations
  | DestinationNotFound
  | InvalidWeights

text \<open>A function with an index expression either returns or panics with
  "index out of range".\<close>

datatype 'a exec = Return 'a | Panic

subsection \<open>The remote store\<close>

text \<open>
  The state outside the router: the stored objects by (namespace, name), the outcomes
  scripted for the coming remote calls (\<open>None\<close>: the call reaches the store; \<open>Some e\<close>: it
  fails with \<open>e\<close> and leaves the store alone; an empty script: every call reaches the
  store), and the log of the remote calls made so far, oldest first.
\<close>

datatype call = GetCall string string | UpdateCall string UpstreamGroup

record world =
  objects :: "string \<times> string \<Rightarrow> UpstreamGroup option"
  faults :: "api_error option list"
  calls :: "call list"

definition next_fault :: "world \<Rightarrow> api_error option \<times> world" where
  "next_fault w =
     (case faults w of
        [] \<Rightarrow> (None, w)
      | f # fs \<Rightarrow> (f, w\<lparr>faults := fs\<rparr>))"

text \<open>
  Modelled from the spec: the client
  \<^verbatim>\<open>gr.glooClient.GlooV1().UpstreamGroups(ns).Get(ctx, name, opts)\<close> is not under src/.
  Section 6: \<^verbatim>\<open>Get(groupName, namespace) -> DestinationGroup | NotFoundError | TransportError\<close>.
\<close>

definition UpstreamGroups_Get ::
  "string \<Rightarrow> string \<Rightarrow> world \<Rightarrow> (api_error + UpstreamGroup) \<times> world" where
  "UpstreamGroups_Get ns name w =
     (let w1 = w\<lparr>calls := calls w @ [GetCall ns name]\<rparr>
      in case next_fault w1 of
           (Some e, w2) \<Rightarrow> (Inl e, w2)
         | (None, w2) \<Rightarrow>
             (case objects w2 (ns, name) of
                None \<Rightarrow> (Inl NotFound, w2)
              | Some g \<Rightarrow> (Inr g, w2)))"

text \<open>
  Modelled from the spec: the client
  \<^verbatim>\<open>gr.glooClient.GlooV1().UpstreamGroups(ns).Update(ctx, obj, opts)\<close> is not under src/.
  Section 6: \<^verbatim>\<open>Update(DestinationGroup) -> DestinationGroup | ConflictError | TransportError\<close>,
  the conflict keyed on the version token of the object passed in. An accepted update
  stores the object under a new version token.
\<close>

definition UpstreamGroups_Update ::
  "string \<Rightarrow> UpstreamGroup \<Rightarrow> world \<Rightarrow> (api_error + UpstreamGroup) \<times> world" where
  "UpstreamGroups_Update ns obj w =
     (let w1 = w\<lparr>calls := calls w @ [UpdateCall ns obj]\<rparr>
      in case next_fault w1 of
           (Some e, w2) \<Rightarrow> (Inl e, w2)
         | (None, w2) \<Rightarrow>
             (case objects w2 (ns, ObjectMeta_Name obj) of
                None \<Rightarrow> (Inl NotFound, w2)
              | Some cur \<Rightarrow>
                  if ResourceVersion cur \<noteq> ResourceVersion obj then (Inl Conflict, w2)
                  else
                    (let stored = obj\<lparr>ResourceVersion := Suc (ResourceVersion obj)\<rparr>
                     in (Inr stored,
                         w2\<lparr>objects := (objects w2)((ns, ObjectMeta_Name obj) := Some stored)\<rparr>))))"

text \<open>The number of Update calls in a log.\<close>

fun is_update :: "call \<Rightarrow> bool" where
  "is_update (UpdateCall ns obj) = True"
| "is_update (GetCall ns name) = False"

definition updates :: "world \<Rightarrow> nat" where
  "updates w = length (filter is_update (calls w))"

subsection \<open>Derived names\<close>

text \<open>The verb \<^verbatim>\<open>%v\<close> of \<^verbatim>\<open>fmt.Sprintf\<close> on an int32: the decimal digits, after a minus sign
  when negative.\<close>

definition digit_char :: "nat \<Rightarrow> char" where
  "digit_char d = ''0123456789'' ! d"

fun show_nat :: "nat \<Rightarrow> string" where
  "show_nat n = (if n < 10 then [digit_char n] else show_nat (n div 10) @ [digit_char (n mod 10)])"

declare show_nat.simps [simp del]

definition fmt_int32 :: "int32 \<Rightarrow> string" where
  "fmt_int32 p = (if sint p < 0 then CHR ''-'' # show_nat (nat (- sint p)) else show_nat (nat (sint p)))"

text \<open>\<^verbatim>\<open>fmt.Sprintf("%s-canary-%v", apexName, port)\<close> and \<^verbatim>\<open>fmt.Sprintf("%s-%v", apexName, port)\<close>.\<close>

definition canaryName_of :: "string \<Rightarrow> int32 \<Rightarrow> string" where
  "canaryName_of apexName port = apexName @ ''-canary-'' @ fmt_int32 port"

definition primaryName_of :: "string \<Rightarrow> int32 \<Rightarrow> string" where
  "primaryName_of apexName port = apexName @ ''-'' @ fmt_int32 port"

text \<open>
  Modelled from the spec: \<^verbatim>\<open>canary.GetServiceNames()\<close> is not under src/; the router keeps
  its first result only (\<^verbatim>\<open>apexName, _, _ := canary.GetServiceNames()\<close>). Section 4.2:
  "apexName(d) = target reference name".
\<close>

definition GetServiceNames :: "Canary \<Rightarrow> string" where
  "GetServiceNames canary = Spec_TargetRef_Name canary"

subsection \<open>Loops over the destination list\<close>

text \<open>
  \<^verbatim>\<open>for i, dst := range dsts { if dst.Destination.Upstream.Name == name { ...; break } }\<close>:
  the index and the copy \<^verbatim>\<open>dst\<close> of the first entry with the name, counting from \<open>i\<close>.
\<close>

fun range_find_from :: "nat \<Rightarrow> string \<Rightarrow> WeightedDestination list \<Rightarrow> (nat \<times> WeightedDestination) option" where
  "range_find_from i name [] = None"
| "range_find_from i name (dst # dsts) =
     (if upstream_name dst = name then Some (i, dst) else range_find_from (Suc i) name dsts)"

definition range_find :: "string \<Rightarrow> WeightedDestination list \<Rightarrow> (nat \<times> WeightedDestination) option" where
  "range_find name dsts = range_find_from 0 name dsts"

text \<open>
  \<^verbatim>\<open>func remove(s []WeightedDestination, i int)\<close> (gloo.go:163 and part_000:172, the same
  text): \<^verbatim>\<open>s[i] = s[len(s)-1]; return s[:len(s)-1]\<close>. Reading \<^verbatim>\<open>s[len(s)-1]\<close> of an empty
  slice panics, and so does writing \<^verbatim>\<open>s[i]\<close> with \<open>i\<close> out of range.
\<close>

definition remove_dst :: "WeightedDestination list \<Rightarrow> nat \<Rightarrow> WeightedDestination list exec" where
  "remove_dst s i =
     (if length s = 0 then Panic
      else if \<not> i < length s then Panic
      else Return (take (length s - 1) (s[i := s ! (length s - 1)])))"

subsection \<open>Revision g1: gloo.go, lines 1-166\<close>

text \<open>
  Reconcile (gloo.go:27): read the group; when no entry bears the canary name, append the
  canary entry at weight 0 to a copy of the list and update; otherwise write nothing.
  The log line is not modelled.
\<close>

definition Reconcile_g1 :: "Canary \<Rightarrow> world \<Rightarrow> error option \<times> world" where
  "Reconcile_g1 canary w =
     (let apexName = GetServiceNames canary;
          canaryName = canaryName_of apexName (Spec_Service_Port canary)
      in case UpstreamGroups_Get (Canary_Namespace canary) apexName w of
           (Inl err, w1) \<Rightarrow>
             (if err = NotFound then (Some GroupNotFound, w1) else (Some (QueryError err), w1))
         | (Inr upstreamGroup, w1) \<Rightarrow>
             (case range_find canaryName (Destinations (Spec upstreamGroup)) of
                Some canaryDestination \<Rightarrow> (None, w1)
              | None \<Rightarrow>
                  (let newDestinations = [] @ Destinations (Spec upstreamGroup);
                       upstreamGroup' = upstreamGroup\<lparr>Spec := (Spec upstreamGroup)\<lparr>Destinations :=
                         newDestinations @
                           [mk_WeightedDestination canaryName (Canary_Namespace canary) 0]\<rparr>\<rparr>
                   in case UpstreamGroups_Update (Canary_Namespace canary) upstreamGroup' w1 of
                        (Inl err, w2) \<Rightarrow> (Some (UpdateError err), w2)
                      | (Inr u, w2) \<Rightarrow> (None, w2))))"

text \<open>
  GetRoutes (gloo.go:76), with the named results \<open>(primaryWeight, canaryWeight, mirrored, err)\<close>,
  all zero until assigned. The entry looked up is the canary's.
\<close>

definition GetRoutes_g1 :: "Canary \<Rightarrow> world \<Rightarrow> (go_int \<times> go_int \<times> bool \<times> error option) \<times> world" where
  "GetRoutes_g1 canary w =
     (let apexName = Spec_TargetRef_Name canary;
          canaryName = canaryName_of apexName (Spec_Service_Port canary)
      in case UpstreamGroups_Get (Canary_Namespace canary) apexName w of
           (Inl err, w1) \<Rightarrow> ((0, 0, False, Some (QueryError err)), w1)
         | (Inr upstreamGroup, w1) \<Rightarrow>
             if length (Destinations (Spec upstreamGroup)) < 2
             then ((0, 0, False, Some InsufficientDestinations), w1)
             else
               (case range_find canaryName (Destinations (Spec upstreamGroup)) of
                  Some (i, dst) \<Rightarrow>
                    (let canaryWeight = go_div (int_of_uint32 (Weight dst)) 10;
                         primaryWeight = 100 - canaryWeight
                     in ((primaryWeight, canaryWeight, False, None), w1))
                | None \<Rightarrow> ((0, 0, False, Some DestinationNotFound), w1)))"

text \<open>
  SetRoutes (gloo.go:108): the weight of the first entry with the canary name is
  overwritten through its index; the update is sent whether or not an entry was found.
\<close>

definition SetRoutes_g1 :: "Canary \<Rightarrow> go_int \<Rightarrow> go_int \<Rightarrow> bool \<Rightarrow> world \<Rightarrow> error option exec \<times> world" where
  "SetRoutes_g1 canary primaryWeight canaryWeight mirror w =
     (let apexName = GetServiceNames canary;
          canaryName = canaryName_of apexName (Spec_Service_Port canary)
      in if primaryWeight = 0 \<and> canaryWeight = 0 then (Return (Some InvalidWeights), w)
         else
           case UpstreamGroups_Get (Canary_Namespace canary) apexName w of
             (Inl err, w1) \<Rightarrow> (Return (Some (QueryError err)), w1)
           | (Inr upstreamGroup, w1) \<Rightarrow>
               (let dsts = Destinations (Spec upstreamGroup);
                    written =
                      (case range_find canaryName dsts of
                         None \<Rightarrow> Return dsts
                       | Some (i, dst) \<Rightarrow>
                           if i < length dsts
                           then Return (dsts[i := (dsts ! i)\<lparr>Weight := uint32_of_int (canaryWeight * 10)\<rparr>])
                           else Panic)
                in case written of
                     Panic \<Rightarrow> (Panic, w1)
                   | Return dsts' \<Rightarrow>
                       (case UpstreamGroups_Update (Canary_Namespace canary)
                               (upstreamGroup\<lparr>Spec := (Spec upstreamGroup)\<lparr>Destinations := dsts'\<rparr>\<rparr>) w1 of
                          (Inl err, w2) \<Rightarrow> (Return (Some (UpdateError err)), w2)
                        | (Inr u, w2) \<Rightarrow> (Return None, w2))))"

text \<open>
  Finalize (gloo.go:140): \<^verbatim>\<open>remove\<close> is called inside the loop, at the index of the first
  entry with the canary name; with no such entry the list is sent back as it was read.
\<close>

definition Finalize_g1 :: "Canary \<Rightarrow> world \<Rightarrow> error option exec \<times> world" where
  "Finalize_g1 canary w =
     (let apexName = GetServiceNames canary;
          canaryName = canaryName_of apexName (Spec_Service_Port canary)
      in case UpstreamGroups_Get (Canary_Namespace canary) apexName w of
           (Inl err, w1) \<Rightarrow> (Return (Some (QueryError err)), w1)
         | (Inr upstreamGroup, w1) \<Rightarrow>
             (let dsts = Destinations (Spec upstreamGroup);
                  removed =
                    (case range_find canaryName dsts of
                       None \<Rightarrow> Return dsts
                     | Some (i, dst) \<Rightarrow> remove_dst dsts i)
              in case removed of
                   Panic \<Rightarrow> (Panic, w1)
                 | Return dsts' \<Rightarrow>
                     (case UpstreamGroups_Update (Canary_Namespace canary)
                             (upstreamGroup\<lparr>Spec := (Spec upstreamGroup)\<lparr>Destinations := dsts'\<rparr>\<rparr>) w1 of
                        (Inl err, w2) \<Rightarrow> (Return (Some (UpdateError err)), w2)
                      | (Inr u, w2) \<Rightarrow> (Return None, w2))))"

subsection \<open>Revision g2: gloo.go, lines 167-362\<close>

text \<open>
  \<^verbatim>\<open>cmp.Diff(x, y, cmpopts.IgnoreFields(WeightedDestination{}, "Weight")) != ""\<close> on two
  UpstreamGroupSpec values: the destination lists differ in length or, at some position,
  in the fields other than Weight.
\<close>

definition Diff_IgnoreFields_Weight :: "UpstreamGroupSpec \<Rightarrow> UpstreamGroupSpec \<Rightarrow> bool" where
  "Diff_IgnoreFields_Weight x y = (map Destination (Destinations x) \<noteq> map Destination (Destinations y))"

text \<open>The two-entry spec literal of Reconcile (gloo.go:200) and SetRoutes (gloo.go:329).\<close>

definition two_entry_spec :: "string \<Rightarrow> string \<Rightarrow> string \<Rightarrow> uint32 \<Rightarrow> uint32 \<Rightarrow> UpstreamGroupSpec" where
  "two_entry_spec primaryName canaryName ns pw cw =
     \<lparr>Destinations = [mk_WeightedDestination primaryName ns pw, mk_WeightedDestination canaryName ns cw]\<rparr>"

text \<open>
  Reconcile (gloo.go:195): the desired spec is primary at 1000 and canary at 0; it replaces
  the stored spec only when the two differ apart from the weights.
\<close>

definition Reconcile_g2 :: "Canary \<Rightarrow> world \<Rightarrow> error option \<times> world" where
  "Reconcile_g2 canary w =
     (let apexName = GetServiceNames canary;
          canaryName = canaryName_of apexName (Spec_Service_Port canary);
          primaryName = primaryName_of apexName (Spec_Service_Port canary);
          newSpec = two_entry_spec primaryName canaryName (Canary_Namespace canary) 1000 0
      in case UpstreamGroups_Get (Canary_Namespace canary) apexName w of
           (Inl err, w1) \<Rightarrow>
             (if err = NotFound then (Some GroupNotFound, w1) else (Some (QueryError err), w1))
         | (Inr upstreamGroup, w1) \<Rightarrow>
             if Diff_IgnoreFields_Weight newSpec (Spec upstreamGroup)
             then
               (let clone = upstreamGroup\<lparr>Spec := newSpec\<rparr>
                in case UpstreamGroups_Update (Canary_Namespace canary) clone w1 of
                     (Inl err, w2) \<Rightarrow> (Some (UpdateError err), w2)
                   | (Inr u, w2) \<Rightarrow> (None, w2))
             else (None, w1))"

text \<open>
  GetRoutes (gloo.go:278): the entry looked up is the primary's; when no entry bears the
  name, the function falls off the loop and returns its zero results with a nil error.
\<close>

definition GetRoutes_g2 :: "Canary \<Rightarrow> world \<Rightarrow> (go_int \<times> go_int \<times> bool \<times> error option) \<times> world" where
  "GetRoutes_g2 canary w =
     (let apexName = Spec_TargetRef_Name canary;
          primaryName = primaryName_of (Spec_TargetRef_Name canary) (Spec_Service_Port canary)
      in case UpstreamGroups_Get (Canary_Namespace canary) apexName w of
           (Inl err, w1) \<Rightarrow> ((0, 0, False, Some (QueryError err)), w1)
         | (Inr upstreamGroup, w1) \<Rightarrow>
             if length (Destinations (Spec upstreamGroup)) < 2
             then ((0, 0, False, Some InsufficientDestinations), w1)
             else
               (case range_find primaryName (Destinations (Spec upstreamGroup)) of
                  Some (i, dst) \<Rightarrow>
                    (let primaryWeight = go_div (int_of_uint32 (Weight dst)) 10;
                         canaryWeight = 100 - primaryWeight
                     in ((primaryWeight, canaryWeight, False, None), w1))
                | None \<Rightarrow> ((0, 0, False, None), w1)))"

text \<open>SetRoutes (gloo.go:310): the stored spec is replaced by the two entries at the
  converted weights.\<close>

definition SetRoutes_g2 :: "Canary \<Rightarrow> go_int \<Rightarrow> go_int \<Rightarrow> bool \<Rightarrow> world \<Rightarrow> error option \<times> world" where
  "SetRoutes_g2 canary primaryWeight canaryWeight mirror w =
     (let apexName = GetServiceNames canary;
          canaryName = canaryName_of apexName (Spec_Service_Port canary);
          primaryName = primaryName_of apexName (Spec_Service_Port canary)
      in if primaryWeight = 0 \<and> canaryWeight = 0 then (Some InvalidWeights, w)
         else
           case UpstreamGroups_Get (Canary_Namespace canary) apexName w of
             (Inl err, w1) \<Rightarrow> (Some (QueryError err), w1)
           | (Inr upstreamGroup, w1) \<Rightarrow>
               (let upstreamGroup' = upstreamGroup\<lparr>Spec :=
                      two_entry_spec primaryName canaryName (Canary_Namespace canary)
                        (uint32_of_int (primaryWeight * 10)) (uint32_of_int (canaryWeight * 10))\<rparr>
                in case UpstreamGroups_Update (Canary_Namespace canary) upstreamGroup' w1 of
                     (Inl err, w2) \<Rightarrow> (Some (UpdateError err), w2)
                   | (Inr u, w2) \<Rightarrow> (None, w2)))"

text \<open>Finalize (gloo.go:359) returns nil.\<close>

definition Finalize_g2 :: "Canary \<Rightarrow> world \<Rightarrow> error option \<times> world" where
  "Finalize_g2 canary w = (None, w)"

subsection \<open>Revision p0: part_000\<close>

text \<open>
  The loop of Reconcile's else branch (part_000:61), entered with
  \<^verbatim>\<open>newDestinations = make([]WeightedDestination, len(dsts)+1)\<close>: each entry is appended
  behind what the slice already holds, and at an entry with the canary name the slot at
  the loop index \<open>i\<close> gets weight 0.
\<close>

fun Reconcile_p0_loop ::
  "string \<Rightarrow> nat \<Rightarrow> WeightedDestination list \<Rightarrow> WeightedDestination list \<Rightarrow> WeightedDestination list exec" where
  "Reconcile_p0_loop canaryName i [] newDestinations = Return newDestinations"
| "Reconcile_p0_loop canaryName i (dst # dsts) newDestinations =
     (let appended = newDestinations @ [dst]
      in if upstream_name dst = canaryName
         then (if i < length appended
               then Reconcile_p0_loop canaryName (Suc i) dsts (appended[i := (appended ! i)\<lparr>Weight := 0\<rparr>])
               else Panic)
         else Reconcile_p0_loop canaryName (Suc i) dsts appended)"

text \<open>Reconcile (part_000:27): the list is rebuilt in either branch and the update is
  always sent.\<close>

definition Reconcile_p0 :: "Canary \<Rightarrow> world \<Rightarrow> error option exec \<times> world" where
  "Reconcile_p0 canary w =
     (let apexName = GetServiceNames canary;
          canaryName = canaryName_of apexName (Spec_Service_Port canary)
      in case UpstreamGroups_Get (Canary_Namespace canary) apexName w of
           (Inl err, w1) \<Rightarrow>
             (if err = NotFound then (Return (Some GroupNotFound), w1)
              else (Return (Some (QueryError err)), w1))
         | (Inr upstreamGroup, w1) \<Rightarrow>
             (let dsts = Destinations (Spec upstreamGroup);
                  built =
                    (case range_find canaryName dsts of
                       None \<Rightarrow>
                         Return (dsts @ [mk_WeightedDestination canaryName (Canary_Namespace canary) 0])
                     | Some canaryDestination \<Rightarrow>
                         Reconcile_p0_loop canaryName 0 dsts
                           (replicate (length dsts + 1) zero_WeightedDestination))
              in case built of
                   Panic \<Rightarrow> (Panic, w1)
                 | Return newDestinations \<Rightarrow>
                     (let clone = upstreamGroup\<lparr>Spec := (Spec upstreamGroup)\<lparr>Destinations := newDestinations\<rparr>\<rparr>
                      in case UpstreamGroups_Update (Canary_Namespace canary) clone w1 of
                           (Inl err, w2) \<Rightarrow> (Return (Some (UpdateError err)), w2)
                         | (Inr u, w2) \<Rightarrow> (Return None, w2))))"

text \<open>GetRoutes (part_000:83): the same text as revision g2's.\<close>

definition GetRoutes_p0 :: "Canary \<Rightarrow> world \<Rightarrow> (go_int \<times> go_int \<times> bool \<times> error option) \<times> world" where
  "GetRoutes_p0 canary w =
     (let apexName = Spec_TargetRef_Name canary;
          primaryName = primaryName_of (Spec_TargetRef_Name canary) (Spec_Service_Port canary)
      in case UpstreamGroups_Get (Canary_Namespace canary) apexName w of
           (Inl err, w1) \<Rightarrow> ((0, 0, False, Some (QueryError err)), w1)
         | (Inr upstreamGroup, w1) \<Rightarrow>
             if length (Destinations (Spec upstreamGroup)) < 2
             then ((0, 0, False, Some InsufficientDestinations), w1)
             else
               (case range_find primaryName (Destinations (Spec upstreamGroup)) of
                  Some (i, dst) \<Rightarrow>
                    (let primaryWeight = go_div (int_of_uint32 (Weight dst)) 10;
                         canaryWeight = 100 - primaryWeight
                     in ((primaryWeight, canaryWeight, False, None), w1))
                | None \<Rightarrow> ((0, 0, False, None), w1)))"

text \<open>
  The loop of SetRoutes (part_000:132),
  \<^verbatim>\<open>for _, dst := range dsts { if ... { dst.Weight = w; break } }\<close>: the assignment goes to
  the loop's own copy \<^verbatim>\<open>dst\<close>. The result is the slice, which no iteration writes, and
  the last value of the copy.
\<close>

fun SetRoutes_p0_loop ::
  "string \<Rightarrow> uint32 \<Rightarrow> WeightedDestination list \<Rightarrow> WeightedDestination list \<Rightarrow>
   WeightedDestination list \<times> WeightedDestination option" where
  "SetRoutes_p0_loop canaryName wt s [] = (s, None)"
| "SetRoutes_p0_loop canaryName wt s (dst # rest) =
     (if upstream_name dst = canaryName then (s, Some (dst\<lparr>Weight := wt\<rparr>))
      else SetRoutes_p0_loop canaryName wt s rest)"

definition SetRoutes_p0 :: "Canary \<Rightarrow> go_int \<Rightarrow> go_int \<Rightarrow> bool \<Rightarrow> world \<Rightarrow> error option \<times> world" where
  "SetRoutes_p0 canary primaryWeight canaryWeight mirror w =
     (let apexName = GetServiceNames canary;
          canaryName = canaryName_of apexName (Spec_Service_Port canary)
      in if primaryWeight = 0 \<and> canaryWeight = 0 then (Some InvalidWeights, w)
         else
           case UpstreamGroups_Get (Canary_Namespace canary) apexName w of
             (Inl err, w1) \<Rightarrow> (Some (QueryError err), w1)
           | (Inr upstreamGroup, w1) \<Rightarrow>
               (let dsts = Destinations (Spec upstreamGroup);
                    (dsts', dst) = SetRoutes_p0_loop canaryName (uint32_of_int (canaryWeight * 10)) dsts dsts;
                    upstreamGroup' = upstreamGroup\<lparr>Spec := (Spec upstreamGroup)\<lparr>Destinations := dsts'\<rparr>\<rparr>
                in case UpstreamGroups_Update (Canary_Namespace canary) upstreamGroup' w1 of
                     (Inl err, w2) \<Rightarrow> (Some (UpdateError err), w2)
                   | (Inr u, w2) \<Rightarrow> (None, w2)))"

text \<open>
  Finalize (part_000:146): \<^verbatim>\<open>var idx int\<close> starts at 0 and is set to the index of the first
  entry with the canary name, if any; \<^verbatim>\<open>remove\<close> is then called with \<open>idx\<close> in every case.
\<close>

definition Finalize_p0 :: "Canary \<Rightarrow> world \<Rightarrow> error option exec \<times> world" where
  "Finalize_p0 canary w =
     (let apexName = GetServiceNames canary;
          canaryName = canaryName_of apexName (Spec_Service_Port canary)
      in case UpstreamGroups_Get (Canary_Namespace canary) apexName w of
           (Inl err, w1) \<Rightarrow> (Return (Some (QueryError err)), w1)
         | (Inr upstreamGroup, w1) \<Rightarrow>
             (let dsts = Destinations (Spec upstreamGroup);
                  idx = (case range_find canaryName dsts of None \<Rightarrow> 0 | Some (i, dst) \<Rightarrow> i)
              in case remove_dst dsts idx of
                   Panic \<Rightarrow> (Panic, w1)
                 | Return dsts' \<Rightarrow>
                     (case UpstreamGroups_Update (Canary_Namespace canary)
                             (upstreamGroup\<lparr>Spec := (Spec upstreamGroup)\<lparr>Destinations := dsts'\<rparr>\<rparr>) w1 of
                        (Inl err, w2) \<Rightarrow> (Return (Some (UpdateError err)), w2)
                      | (Inr u, w2) \<Rightarrow> (Return None, w2))))"

subsection \<open>A concrete descriptor and store\<close>

text \<open>The canary \<open>app\<close> in namespace \<open>ns\<close> on port 80, and a reliable store that holds the
  group \<open>app\<close> with a given destination list and nothing else.\<close>

definition canary0 :: Canary where
  "canary0 = \<lparr>Canary_Name = ''app'', Canary_Namespace = ''ns'',
               Spec_TargetRef_Name = ''app'', Spec_Service_Port = 80\<rparr>"

definition group0 :: "nat \<Rightarrow> WeightedDestination list \<Rightarrow> UpstreamGroup" where
  "group0 v dsts = \<lparr>ObjectMeta_Name = ''app'', ObjectMeta_Namespace = ''ns'',
                     ResourceVersion = v, Spec = \<lparr>Destinations = dsts\<rparr>\<rparr>"

definition world0 :: "WeightedDestination list \<Rightarrow> world" where
  "world0 dsts = \<lparr>objects = (\<lambda>k. None)((''ns'', ''app'') := Some (group0 1 dsts)),
                   faults = [], calls = []\<rparr>"

text \<open>The destination list stored for a descriptor, if its group exists.\<close>

definition stored_destinations :: "Canary \<Rightarrow> world \<Rightarrow> WeightedDestination list option" where
  "stored_destinations canary w =
     map_option (\<lambda>g. Destinations (Spec g)) (objects w (Canary_Namespace canary, GetServiceNames canary))"

text \<open>The error among the four results of GetRoutes.\<close>

definition routes_err :: "(go_int \<times> go_int \<times> bool \<times> error option) \<times> world \<Rightarrow> error option" where
  "routes_err r = snd (snd (snd (fst r)))"

text \<open>The primary and canary entries of \<open>canary0\<close> at a given weight.\<close>

definition primary_at :: "uint32 \<Rightarrow> WeightedDestination" where
  "primary_at wt = mk_WeightedDestination ''app-80'' ''ns'' wt"

definition canary_at :: "uint32 \<Rightarrow> WeightedDestination" where
  "canary_at wt = mk_WeightedDestination ''app-canary-80'' ''ns'' wt"

section \<open>Properties\<close>

subsection \<open>Conversions between the two weight scales\<close>

lemma uint_int_of_uint32: "uint (int_of_uint32 x) = uint x"
  unfolding int_of_uint32_def by (rule uint_up_ucast) (simp add: is_up)

lemma sint_small:
  fixes y :: go_int
  assumes "uint y < 2 ^ 63"
  shows "sint y = uint y"
proof -
  have "- (2 ^ 63) \<le> uint y"
    by (rule order_trans[of _ 0]) simp_all
  then have "signed_take_bit 63 (uint y) = uint y"
    using assms by (rule signed_take_bit_int_eq_self)
  then show ?thesis by (simp add: sint_uint)
qed

lemma sint_int_of_uint32: "sint (int_of_uint32 x) = uint x"
proof -
  have "uint x < 2 ^ 32" using uint_bounded[of x] by simp
  then have "uint x < 2 ^ 63" by (rule less_le_trans) simp
  then have "uint (int_of_uint32 x) < 2 ^ 63" by (simp only: uint_int_of_uint32)
  then show ?thesis by (simp only: sint_small uint_int_of_uint32)
qed

lemma sdiv_nonneg_10: "0 \<le> k \<Longrightarrow> k sdiv (10::int) = k div 10"
  by (cases "k = 0") (simp_all add: signed_divide_int_def)

text \<open>The percent of an internal weight: \<^verbatim>\<open>int(dst.Weight) / 10\<close> is the truncated tenth.\<close>

lemma go_div_10: "go_div (int_of_uint32 x) 10 = word_of_nat (unat x div 10)"
proof -
  have "sint (int_of_uint32 x) sdiv sint (10 :: go_int) = uint x div 10"
    by (simp add: sint_int_of_uint32 sdiv_nonneg_10)
  then have "go_div (int_of_uint32 x) 10 = word_of_int (uint x div 10)"
    by (simp add: go_div_def)
  also have "uint x div 10 = int (unat x div 10)"
    by (simp add: zdiv_int)
  finally show ?thesis by simp
qed

lemma pct_bound: "unat (x::uint32) div 10 < 2 ^ 32"
proof -
  have "unat x < 2 ^ 32" using unsigned_less[of x] by simp
  moreover have "unat x div 10 \<le> unat x" by simp
  ultimately show ?thesis by (rule le_less_trans[rotated])
qed

lemma uint_pct: "uint (word_of_nat (unat (x::uint32) div 10) :: go_int) = int (unat x div 10)"
proof -
  have "unat x div 10 < 2 ^ 32" by (rule pct_bound)
  then have "unat x div 10 < 2 ^ 64" by (rule less_le_trans) simp
  then have "unat (word_of_nat (unat x div 10) :: go_int) = unat x div 10"
    by (simp add: unat_of_nat)
  then show ?thesis by (metis of_nat_unat)
qed

lemma sint_pct: "sint (word_of_nat (unat (x::uint32) div 10) :: go_int) = int (unat x div 10)"
proof -
  have "int (unat x div 10) < 2 ^ 32" using pct_bound[of x]
    by (metis of_nat_less_iff of_nat_numeral of_nat_power)
  then have "int (unat x div 10) < 2 ^ 63" by (rule less_le_trans) simp
  then show ?thesis by (simp only: sint_small uint_pct)
qed

text \<open>The counterpart percent \<^verbatim>\<open>100 - percent\<close> does not wrap around.\<close>

lemma sint_100_minus_pct:
  "sint (100 - word_of_nat (unat (x::uint32) div 10) :: go_int) = 100 - int (unat x div 10)"
proof -
  let ?q = "int (unat x div 10)"
  have b: "?q < 2 ^ 32" using pct_bound[of x]
    by (metis of_nat_less_iff of_nat_numeral of_nat_power)
  have "sint (100 - word_of_nat (unat x div 10) :: go_int) = signed_take_bit 63 (100 - ?q)"
    by (simp add: sint_word_diff sint_pct)
  also have "\<dots> = 100 - ?q"
  proof (rule signed_take_bit_int_eq_self)
    have "(2::int) ^ 32 \<le> 2 ^ 63" by simp
    then show "- (2 ^ 63) \<le> 100 - ?q" using b by linarith
    have "(100::int) < 2 ^ 63" by simp
    moreover have "0 \<le> ?q" by simp
    ultimately show "100 - ?q < 2 ^ 63" by linarith
  qed
  finally show ?thesis .
qed

subsection \<open>The concrete descriptor\<close>

lemma show_nat_80: "show_nat 80 = ''80''"
  by (simp add: show_nat.simps[of 80] show_nat.simps[of 8] digit_char_def)

lemma fmt_int32_80: "fmt_int32 80 = ''80''"
  by (simp add: fmt_int32_def show_nat_80)

lemma canaryName_canary0: "canaryName_of ''app'' 80 = ''app-canary-80''"
  by (simp add: canaryName_of_def fmt_int32_80)

lemma primaryName_canary0: "primaryName_of ''app'' 80 = ''app-80''"
  by (simp add: primaryName_of_def fmt_int32_80)

lemma Get_world0:
  "UpstreamGroups_Get ''ns'' ''app'' (world0 dsts) =
     (Inr (group0 1 dsts), (world0 dsts)\<lparr>calls := [GetCall ''ns'' ''app'']\<rparr>)"
  by (simp add: UpstreamGroups_Get_def world0_def next_fault_def)

subsection \<open>The lookup loop\<close>

lemma range_find_from_Some:
  "range_find_from k name dsts = Some (i, dst) \<longleftrightarrow>
     k \<le> i \<and> i - k < length dsts \<and> dsts ! (i - k) = dst \<and> upstream_name dst = name
     \<and> (\<forall>j < i - k. upstream_name (dsts ! j) \<noteq> name)"
proof (induction dsts arbitrary: k)
  case Nil
  then show ?case by simp
next
  case (Cons a dsts)
  show ?case
  proof (cases "upstream_name a = name")
    case True
    then show ?thesis by (cases "i - k") auto
  next
    case False
    have "range_find_from k name (a # dsts) = Some (i, dst) \<longleftrightarrow>
       range_find_from (Suc k) name dsts = Some (i, dst)" using False by simp
    also have "\<dots> \<longleftrightarrow> Suc k \<le> i \<and> i - Suc k < length dsts \<and> dsts ! (i - Suc k) = dst \<and> upstream_name dst = name
     \<and> (\<forall>j < i - Suc k. upstream_name (dsts ! j) \<noteq> name)" by (rule Cons.IH)
    also have "\<dots> \<longleftrightarrow> k \<le> i \<and> i - k < length (a # dsts) \<and> (a # dsts) ! (i - k) = dst \<and> upstream_name dst = name
     \<and> (\<forall>j < i - k. upstream_name ((a # dsts) ! j) \<noteq> name)"
    proof (cases "i - k")
      case 0
      then show ?thesis using False by auto
    next
      case (Suc n)
      then have e: "i - Suc k = n" "Suc k \<le> i" "k \<le> i" by simp_all
      have "(\<forall>j < Suc n. upstream_name ((a # dsts) ! j) \<noteq> name) \<longleftrightarrow> (\<forall>j < n. upstream_name (dsts ! j) \<noteq> name)"
        using False by (auto simp: less_Suc_eq_0_disj)
      then show ?thesis using Suc e by simp
    qed
    finally show ?thesis .
  qed
qed

lemma range_find_Some_iff:
  "range_find name dsts = Some (i, dst) \<longleftrightarrow>
     i < length dsts \<and> dsts ! i = dst \<and> upstream_name dst = name
     \<and> (\<forall>j < i. upstream_name (dsts ! j) \<noteq> name)"
  by (simp add: range_find_def range_find_from_Some)

lemma range_find_from_None:
  "range_find_from k name dsts = None \<longleftrightarrow> (\<forall>dst \<in> set dsts. upstream_name dst \<noteq> name)"
  by (induction dsts arbitrary: k) auto

lemma range_find_None_iff:
  "range_find name dsts = None \<longleftrightarrow> (\<forall>dst \<in> set dsts. upstream_name dst \<noteq> name)"
  by (simp add: range_find_def range_find_from_None)

subsection \<open>SetRoutes rejects the 0/0 split\<close>

text \<open>
  Claim C6. In each revision \<^verbatim>\<open>SetRoutes(d, 0, 0, mirror)\<close> returns the "no valid weights"
  error (InvalidWeights) for every descriptor and every state of the outside world, and
  leaves that world as it was: the stored objects are unchanged and the log of remote
  calls gains neither a Get nor an Update.
\<close>

theorem SetRoutes_zero_zero_InvalidWeights:
  "SetRoutes_g1 d 0 0 m w = (Return (Some InvalidWeights), w)
   \<and> SetRoutes_g2 d 0 0 m w = (Some InvalidWeights, w)
   \<and> SetRoutes_p0 d 0 0 m w = (Some InvalidWeights, w)"
  by (simp add: SetRoutes_g1_def SetRoutes_g2_def SetRoutes_p0_def)

subsection \<open>GetRoutes on fewer than two entries\<close>

text \<open>
  Claim C8. In each revision, when GetRoutes's read of the group succeeds, the error
  returned is "destinations not found" (InsufficientDestinations) exactly when the group
  read has fewer than two destination entries: always below two, never from two on.
\<close>

theorem GetRoutes_InsufficientDestinations_iff:
  assumes "UpstreamGroups_Get (Canary_Namespace d) (Spec_TargetRef_Name d) w = (Inr g, w1)"
  shows "(routes_err (GetRoutes_g1 d w) = Some InsufficientDestinations
            \<longleftrightarrow> length (Destinations (Spec g)) < 2)
       \<and> (routes_err (GetRoutes_g2 d w) = Some InsufficientDestinations
            \<longleftrightarrow> length (Destinations (Spec g)) < 2)
       \<and> (routes_err (GetRoutes_p0 d w) = Some InsufficientDestinations
            \<longleftrightarrow> length (Destinations (Spec g)) < 2)"
proof -
  have g1: "routes_err (GetRoutes_g1 d w) = Some InsufficientDestinations
            \<longleftrightarrow> length (Destinations (Spec g)) < 2"
    using assms by (simp add: GetRoutes_g1_def routes_err_def Let_def split: option.split)
  have g2: "routes_err (GetRoutes_g2 d w) = Some InsufficientDestinations
            \<longleftrightarrow> length (Destinations (Spec g)) < 2"
    using assms by (simp add: GetRoutes_g2_def routes_err_def Let_def split: option.split)
  have p0: "routes_err (GetRoutes_p0 d w) = Some InsufficientDestinations
            \<longleftrightarrow> length (Destinations (Spec g)) < 2"
    using assms by (simp add: GetRoutes_p0_def routes_err_def Let_def split: option.split)
  from g1 g2 p0 show ?thesis by simp
qed

text \<open>The group with the primary entry alone gives the error in each revision; the
  group with both entries does not.\<close>

theorem GetRoutes_InsufficientDestinations_iff_witness:
  "routes_err (GetRoutes_g1 canary0 (world0 [primary_at 1000])) = Some InsufficientDestinations
   \<and> routes_err (GetRoutes_g2 canary0 (world0 [primary_at 1000])) = Some InsufficientDestinations
   \<and> routes_err (GetRoutes_p0 canary0 (world0 [primary_at 1000])) = Some InsufficientDestinations
   \<and> routes_err (GetRoutes_g1 canary0 (world0 [primary_at 700, canary_at 300])) \<noteq> Some InsufficientDestinations
   \<and> routes_err (GetRoutes_g2 canary0 (world0 [primary_at 700, canary_at 300])) \<noteq> Some InsufficientDestinations
   \<and> routes_err (GetRoutes_p0 canary0 (world0 [primary_at 700, canary_at 300])) \<noteq> Some InsufficientDestinations"
  using GetRoutes_InsufficientDestinations_iff
          [of canary0 "world0 [primary_at 1000]" "group0 1 [primary_at 1000]"
              "(world0 [primary_at 1000])\<lparr>calls := [GetCall ''ns'' ''app'']\<rparr>"]
        GetRoutes_InsufficientDestinations_iff
          [of canary0 "world0 [primary_at 700, canary_at 300]" "group0 1 [primary_at 700, canary_at 300]"
              "(world0 [primary_at 700, canary_at 300])\<lparr>calls := [GetCall ''ns'' ''app'']\<rparr>"]
  by (simp add: canary0_def Get_world0 group0_def)

subsection \<open>GetRoutes converts the reference weight\<close>

lemma GetRoutes_g1_found:
  assumes "UpstreamGroups_Get (Canary_Namespace d) (Spec_TargetRef_Name d) w = (Inr g, w1)"
      and "2 \<le> length (Destinations (Spec g))"
      and "range_find (canaryName_of (Spec_TargetRef_Name d) (Spec_Service_Port d))
             (Destinations (Spec g)) = Some (i, dst)"
  shows "GetRoutes_g1 d w =
           ((100 - word_of_nat (unat (Weight dst) div 10),
             word_of_nat (unat (Weight dst) div 10), False, None), w1)"
  using assms by (simp add: GetRoutes_g1_def Let_def go_div_10)

lemma GetRoutes_g2_found:
  assumes "UpstreamGroups_Get (Canary_Namespace d) (Spec_TargetRef_Name d) w = (Inr g, w1)"
      and "2 \<le> length (Destinations (Spec g))"
      and "range_find (primaryName_of (Spec_TargetRef_Name d) (Spec_Service_Port d))
             (Destinations (Spec g)) = Some (i, dst)"
  shows "GetRoutes_g2 d w =
           ((word_of_nat (unat (Weight dst) div 10),
             100 - word_of_nat (unat (Weight dst) div 10), False, None), w1)"
  using assms by (simp add: GetRoutes_g2_def Let_def go_div_10)

lemma GetRoutes_p0_eq_g2: "GetRoutes_p0 = GetRoutes_g2"
  by (intro ext) (simp add: GetRoutes_p0_def GetRoutes_g2_def)

text \<open>The third result, mirrored, is false on every path of every revision.\<close>

lemma GetRoutes_mirrored_False:
  "fst (snd (snd (fst (GetRoutes_g1 d w)))) = False"
  "fst (snd (snd (fst (GetRoutes_g2 d w)))) = False"
  "fst (snd (snd (fst (GetRoutes_p0 d w)))) = False"
  by (simp_all add: GetRoutes_g1_def GetRoutes_g2_def GetRoutes_p0_def Let_def
        split: prod.split sum.split option.split)

text \<open>
  Claim C9. In each revision, when the read succeeds and the group has at least two
  entries, GetRoutes takes the first entry bearing the revision's reference name (the
  canary's in g1, the primary's in g2 and p0) and returns, with a nil error and mirrored
  false, that entry's percent, which is its weight divided by 10 with truncation, and the
  counterpart percent, which is 100 minus that percent as integers. This holds for every
  weight, so for those in 0..1000.
\<close>

theorem GetRoutes_percent:
  assumes get: "UpstreamGroups_Get (Canary_Namespace d) (Spec_TargetRef_Name d) w = (Inr g, w1)"
      and two: "2 \<le> length (Destinations (Spec g))"
  shows "(range_find (canaryName_of (Spec_TargetRef_Name d) (Spec_Service_Port d))
            (Destinations (Spec g)) = Some (i, cdst)
          \<longrightarrow> (\<exists>p c. GetRoutes_g1 d w = ((p, c, False, None), w1)
                 \<and> sint c = int (unat (Weight cdst) div 10) \<and> sint p = 100 - sint c))
       \<and> (range_find (primaryName_of (Spec_TargetRef_Name d) (Spec_Service_Port d))
            (Destinations (Spec g)) = Some (j, pdst)
          \<longrightarrow> (\<exists>p c. GetRoutes_g2 d w = ((p, c, False, None), w1)
                 \<and> GetRoutes_p0 d w = ((p, c, False, None), w1)
                 \<and> sint p = int (unat (Weight pdst) div 10) \<and> sint c = 100 - sint p))"
proof (intro conjI impI)
  assume f: "range_find (canaryName_of (Spec_TargetRef_Name d) (Spec_Service_Port d))
            (Destinations (Spec g)) = Some (i, cdst)"
  let ?c = "word_of_nat (unat (Weight cdst) div 10) :: go_int"
  have "GetRoutes_g1 d w = ((100 - ?c, ?c, False, None), w1)"
    using get two f by (rule GetRoutes_g1_found)
  moreover have "sint ?c = int (unat (Weight cdst) div 10)" by (rule sint_pct)
  moreover have "sint (100 - ?c) = 100 - sint ?c" by (simp only: sint_pct sint_100_minus_pct)
  ultimately show "\<exists>p c. GetRoutes_g1 d w = ((p, c, False, None), w1)
                 \<and> sint c = int (unat (Weight cdst) div 10) \<and> sint p = 100 - sint c"
    by blast
next
  assume f: "range_find (primaryName_of (Spec_TargetRef_Name d) (Spec_Service_Port d))
            (Destinations (Spec g)) = Some (j, pdst)"
  let ?p = "word_of_nat (unat (Weight pdst) div 10) :: go_int"
  have "GetRoutes_g2 d w = ((?p, 100 - ?p, False, None), w1)"
    using get two f by (rule GetRoutes_g2_found)
  moreover from this have "GetRoutes_p0 d w = ((?p, 100 - ?p, False, None), w1)"
    by (simp only: GetRoutes_p0_eq_g2)
  moreover have "sint ?p = int (unat (Weight pdst) div 10)" by (rule sint_pct)
  moreover have "sint (100 - ?p) = 100 - sint ?p" by (simp only: sint_pct sint_100_minus_pct)
  ultimately show "\<exists>p c. GetRoutes_g2 d w = ((p, c, False, None), w1)
                 \<and> GetRoutes_p0 d w = ((p, c, False, None), w1)
                 \<and> sint p = int (unat (Weight pdst) div 10) \<and> sint c = 100 - sint p"
    by blast
qed

text \<open>Primary at 700 and canary at 300 give (70, 30, false) in each revision.\<close>

lemma range_find_canary0:
  "range_find ''app-canary-80'' [primary_at a, canary_at b] = Some (1, canary_at b)"
  by (simp add: range_find_def upstream_name_def primary_at_def canary_at_def mk_WeightedDestination_def)

lemma range_find_primary0:
  "range_find ''app-80'' (primary_at a # rest) = Some (0, primary_at a)"
  by (simp add: range_find_def upstream_name_def primary_at_def mk_WeightedDestination_def)

theorem GetRoutes_percent_witness:
  "fst (GetRoutes_g1 canary0 (world0 [primary_at 700, canary_at 300])) = (70, 30, False, None)
   \<and> fst (GetRoutes_g2 canary0 (world0 [primary_at 700, canary_at 300])) = (70, 30, False, None)
   \<and> fst (GetRoutes_p0 canary0 (world0 [primary_at 700, canary_at 300])) = (70, 30, False, None)"
proof -
  let ?w = "world0 [primary_at 700, canary_at 300]"
  let ?w1 = "?w\<lparr>calls := [GetCall ''ns'' ''app'']\<rparr>"
  let ?g = "group0 1 [primary_at 700, canary_at 300]"
  have get: "UpstreamGroups_Get (Canary_Namespace canary0) (Spec_TargetRef_Name canary0) ?w = (Inr ?g, ?w1)"
    by (simp add: canary0_def Get_world0)
  have two: "2 \<le> length (Destinations (Spec ?g))" by (simp add: group0_def)
  have c: "range_find (canaryName_of (Spec_TargetRef_Name canary0) (Spec_Service_Port canary0))
            (Destinations (Spec ?g)) = Some (1, canary_at 300)"
    by (simp add: canary0_def canaryName_canary0 group0_def range_find_canary0)
  have p: "range_find (primaryName_of (Spec_TargetRef_Name canary0) (Spec_Service_Port canary0))
            (Destinations (Spec ?g)) = Some (0, primary_at 700)"
    by (simp add: canary0_def primaryName_canary0 group0_def range_find_primary0)
  have wc: "unat (Weight (canary_at 300)) div 10 = 30"
    by (simp add: canary_at_def mk_WeightedDestination_def)
  have wp: "unat (Weight (primary_at 700)) div 10 = 70"
    by (simp add: primary_at_def mk_WeightedDestination_def)
  from GetRoutes_percent[OF get two, of 1 "canary_at 300" 0 "primary_at 700"] c p
  obtain p1 c1 p2 c2 where
    r1: "GetRoutes_g1 canary0 ?w = ((p1, c1, False, None), ?w1)" "sint c1 = 30" "sint p1 = 100 - sint c1"
    and r2: "GetRoutes_g2 canary0 ?w = ((p2, c2, False, None), ?w1)"
       "GetRoutes_p0 canary0 ?w = ((p2, c2, False, None), ?w1)" "sint p2 = 70" "sint c2 = 100 - sint p2"
    unfolding wc wp by auto
  have "sint c1 = sint (30 :: go_int)" "sint p1 = sint (70 :: go_int)"
       "sint p2 = sint (70 :: go_int)" "sint c2 = sint (30 :: go_int)"
    using r1 r2 by simp_all
  then have "c1 = 30" "p1 = 70" "p2 = 70" "c2 = 30"
    by (simp_all only: signed_word_eqI)
  with r1 r2 show ?thesis by simp
qed

subsection \<open>The remote store\<close>

lemma Get_Inr_D:
  assumes "UpstreamGroups_Get ns n w = (Inr g, w1)"
  shows "objects w (ns, n) = Some g" "objects w1 = objects w" "calls w1 = calls w @ [GetCall ns n]"
        "faults w1 = tl (faults w)"
  using assms
  by (auto simp: UpstreamGroups_Get_def next_fault_def Let_def split: list.splits option.splits)

lemma Get_Inl_D:
  assumes "UpstreamGroups_Get ns n w = (Inl e, w1)"
  shows "objects w1 = objects w" "calls w1 = calls w @ [GetCall ns n]"
  using assms
  by (auto simp: UpstreamGroups_Get_def next_fault_def Let_def split: list.splits option.splits)

lemma Get_reliable:
  assumes "faults w = []" "objects w (ns, n) = Some g"
  shows "UpstreamGroups_Get ns n w = (Inr g, w\<lparr>calls := calls w @ [GetCall ns n]\<rparr>)"
  using assms by (simp add: UpstreamGroups_Get_def next_fault_def)

lemma Update_Inr_D:
  assumes "UpstreamGroups_Update ns obj w = (Inr u, w2)"
  shows "objects w2 = (objects w)((ns, ObjectMeta_Name obj) := Some (obj\<lparr>ResourceVersion := Suc (ResourceVersion obj)\<rparr>))"
        "calls w2 = calls w @ [UpdateCall ns obj]"
  using assms
  by (auto simp: UpstreamGroups_Update_def next_fault_def Let_def split: list.splits option.splits if_splits)

lemma Update_Inl_D:
  assumes "UpstreamGroups_Update ns obj w = (Inl e, w2)"
  shows "objects w2 = objects w" "calls w2 = calls w @ [UpdateCall ns obj]"
  using assms
  by (auto simp: UpstreamGroups_Update_def next_fault_def Let_def split: list.splits option.splits if_splits)

lemma Update_reliable:
  assumes "faults w = []" "objects w (ns, ObjectMeta_Name obj) = Some cur"
    "ResourceVersion cur = ResourceVersion obj"
  shows "UpstreamGroups_Update ns obj w =
     (Inr (obj\<lparr>ResourceVersion := Suc (ResourceVersion obj)\<rparr>),
      w\<lparr>calls := calls w @ [UpdateCall ns obj],
        objects := (objects w)((ns, ObjectMeta_Name obj) := Some (obj\<lparr>ResourceVersion := Suc (ResourceVersion obj)\<rparr>))\<rparr>)"
  using assms by (simp add: UpstreamGroups_Update_def next_fault_def Let_def)

subsection \<open>SetRoutes on a reliable store\<close>

text \<open>\<^verbatim>\<open>uint32(percent * 10)\<close> keeps the product modulo \<open>2 ^ 32\<close>.\<close>

lemma mod_64_32: "(a::int) mod 2 ^ 64 mod 2 ^ 32 = a mod 2 ^ 32"
proof -
  have "(2::int) ^ 32 dvd 2 ^ 64" by (rule le_imp_power_dvd) simp
  then show ?thesis by (rule mod_mod_cancel)
qed

lemma uint_uint32_of_int: "uint (uint32_of_int x) = uint x mod 2 ^ 32"
  by (simp only: uint32_of_int_def unsigned_ucast_eq take_bit_eq_mod len_num1 len_bit0 mult_2 [symmetric])
     simp

lemma uint_uint32_of_int_times_10: "uint (uint32_of_int (c * 10)) = (sint c * 10) mod 2 ^ 32"
proof -
  have "uint (c * 10) = uint c * 10 mod 2 ^ 64"
    by (simp add: uint_word_ariths)
  then have "uint (uint32_of_int (c * 10)) = uint c * 10 mod 2 ^ 64 mod 2 ^ 32"
    by (simp only: uint_uint32_of_int)
  also have "\<dots> = uint c * 10 mod 2 ^ 32" by (rule mod_64_32)
  also have "\<dots> = (uint c mod 2 ^ 32) * 10 mod 2 ^ 32" by (rule mod_mult_left_eq[symmetric])
  also have "uint c = sint c mod 2 ^ 64"
    by (simp add: uint_sint[of c] take_bit_eq_mod)
  also have "sint c mod 2 ^ 64 mod 2 ^ 32 = sint c mod 2 ^ 32" by (rule mod_64_32)
  also have "(sint c mod 2 ^ 32) * 10 mod 2 ^ 32 = sint c * 10 mod 2 ^ 32" by (rule mod_mult_left_eq)
  finally show ?thesis .
qed

lemma range_find_index: "range_find name dsts = Some (i, dst) \<Longrightarrow> i < length dsts \<and> dsts ! i = dst"
  by (simp add: range_find_Some_iff)

lemma Update_reliable_version:
  assumes "faults w = []"
    "map_option ResourceVersion (objects w (ns, ObjectMeta_Name obj)) = Some (ResourceVersion obj)"
  shows "UpstreamGroups_Update ns obj w =
     (Inr (obj\<lparr>ResourceVersion := Suc (ResourceVersion obj)\<rparr>),
      w\<lparr>calls := calls w @ [UpdateCall ns obj],
        objects := (objects w)((ns, ObjectMeta_Name obj) := Some (obj\<lparr>ResourceVersion := Suc (ResourceVersion obj)\<rparr>))\<rparr>)"
  using assms by (auto simp: UpstreamGroups_Update_def next_fault_def Let_def)

lemma SetRoutes_g2_reliable:
  assumes nz: "\<not> (p = 0 \<and> c = 0)"
      and rel: "faults w = []"
      and obj: "objects w (Canary_Namespace d, GetServiceNames d) = Some g"
      and nm: "ObjectMeta_Name g = GetServiceNames d"
  shows "fst (SetRoutes_g2 d p c m w) = None"
    and "stored_destinations d (snd (SetRoutes_g2 d p c m w)) =
           Some [mk_WeightedDestination (primaryName_of (GetServiceNames d) (Spec_Service_Port d))
                   (Canary_Namespace d) (uint32_of_int (p * 10)),
                 mk_WeightedDestination (canaryName_of (GetServiceNames d) (Spec_Service_Port d))
                   (Canary_Namespace d) (uint32_of_int (c * 10))]"
  using nz
  by (auto simp: SetRoutes_g2_def Let_def Get_reliable[OF rel obj] Update_reliable_version
        rel obj nm stored_destinations_def two_entry_spec_def)

lemma SetRoutes_g1_reliable:
  assumes nz: "\<not> (p = 0 \<and> c = 0)"
      and rel: "faults w = []"
      and obj: "objects w (Canary_Namespace d, GetServiceNames d) = Some g"
      and nm: "ObjectMeta_Name g = GetServiceNames d"
  shows "fst (SetRoutes_g1 d p c m w) = Return None"
    and "range_find (canaryName_of (GetServiceNames d) (Spec_Service_Port d)) (Destinations (Spec g)) = Some (i, dst)
         \<Longrightarrow> stored_destinations d (snd (SetRoutes_g1 d p c m w)) =
           Some ((Destinations (Spec g))[i := dst\<lparr>Weight := uint32_of_int (c * 10)\<rparr>])"
    and "range_find (canaryName_of (GetServiceNames d) (Spec_Service_Port d)) (Destinations (Spec g)) = None
         \<Longrightarrow> stored_destinations d (snd (SetRoutes_g1 d p c m w)) = Some (Destinations (Spec g))"
proof -
  let ?cn = "canaryName_of (GetServiceNames d) (Spec_Service_Port d)"
  show "fst (SetRoutes_g1 d p c m w) = Return None"
  proof (cases "range_find ?cn (Destinations (Spec g))")
    case None
    then show ?thesis using nz
      by (simp add: SetRoutes_g1_def Let_def Get_reliable[OF rel obj] Update_reliable_version rel obj nm)
  next
    case (Some a)
    obtain i dst where a: "a = (i, dst)" by (cases a)
    have "i < length (Destinations (Spec g))" using Some a by (simp add: range_find_index)
    then show ?thesis using nz Some a
      by (simp add: SetRoutes_g1_def Let_def Get_reliable[OF rel obj] Update_reliable_version rel obj nm)
  qed
  show "stored_destinations d (snd (SetRoutes_g1 d p c m w)) =
           Some ((Destinations (Spec g))[i := dst\<lparr>Weight := uint32_of_int (c * 10)\<rparr>])"
    if f: "range_find ?cn (Destinations (Spec g)) = Some (i, dst)"
  proof -
    have i: "i < length (Destinations (Spec g))" "Destinations (Spec g) ! i = dst"
      using f by (simp_all add: range_find_index)
    then show ?thesis using nz f
      by (auto simp: SetRoutes_g1_def Let_def Get_reliable[OF rel obj] Update_reliable_version rel obj nm
            stored_destinations_def)
  qed
  show "stored_destinations d (snd (SetRoutes_g1 d p c m w)) = Some (Destinations (Spec g))"
    if f: "range_find ?cn (Destinations (Spec g)) = None"
    using nz f
    by (simp add: SetRoutes_g1_def Let_def Get_reliable[OF rel obj] Update_reliable_version rel obj nm
            stored_destinations_def)
qed

text \<open>
  Claim C10. SetRoutes of revisions g1 and g2 checks nothing but "both percents zero":
  for every other pair of percents, also negative ones and ones above 100, on a reliable
  store holding the group, it returns nil; g1 stores \<^verbatim>\<open>uint32(canaryWeight * 10)\<close> in the
  first canary entry, g2 stores \<^verbatim>\<open>uint32(primaryWeight * 10)\<close> and
  \<^verbatim>\<open>uint32(canaryWeight * 10)\<close>; and the stored weight is the signed percent times 10
  modulo \<open>2 ^ 32\<close>.
\<close>

theorem SetRoutes_stores_unchecked_percent:
  assumes nz: "\<not> (p = 0 \<and> c = 0)"
      and rel: "faults w = []"
      and obj: "objects w (Canary_Namespace d, GetServiceNames d) = Some g"
      and nm: "ObjectMeta_Name g = GetServiceNames d"
  shows "fst (SetRoutes_g1 d p c m w) = Return None
       \<and> (range_find (canaryName_of (GetServiceNames d) (Spec_Service_Port d)) (Destinations (Spec g)) = Some (i, dst)
            \<longrightarrow> stored_destinations d (snd (SetRoutes_g1 d p c m w)) =
                   Some ((Destinations (Spec g))[i := dst\<lparr>Weight := uint32_of_int (c * 10)\<rparr>]))
       \<and> fst (SetRoutes_g2 d p c m w) = None
       \<and> stored_destinations d (snd (SetRoutes_g2 d p c m w)) =
           Some [mk_WeightedDestination (primaryName_of (GetServiceNames d) (Spec_Service_Port d))
                   (Canary_Namespace d) (uint32_of_int (p * 10)),
                 mk_WeightedDestination (canaryName_of (GetServiceNames d) (Spec_Service_Port d))
                   (Canary_Namespace d) (uint32_of_int (c * 10))]
       \<and> uint (uint32_of_int (p * 10)) = (sint p * 10) mod 2 ^ 32
       \<and> uint (uint32_of_int (c * 10)) = (sint c * 10) mod 2 ^ 32"
  using SetRoutes_g1_reliable(1,2)[OF nz rel obj nm] SetRoutes_g2_reliable[OF nz rel obj nm]
        uint_uint32_of_int_times_10
  by blast

text \<open>The percent -1 is stored as 4294967286 by either revision, the percent 500 as 5000.\<close>

lemma world0_simps:
  "faults (world0 dsts) = []"
  "objects (world0 dsts) (''ns'', ''app'') = Some (group0 1 dsts)"
  "calls (world0 dsts) = []"
  by (simp_all add: world0_def)

lemma canary0_simps:
  "Canary_Namespace canary0 = ''ns''" "GetServiceNames canary0 = ''app''"
  "Spec_TargetRef_Name canary0 = ''app''" "Spec_Service_Port canary0 = 80"
  by (simp_all add: canary0_def GetServiceNames_def)

lemma group0_simps:
  "ObjectMeta_Name (group0 v dsts) = ''app''" "Destinations (Spec (group0 v dsts)) = dsts"
  "ResourceVersion (group0 v dsts) = v"
  by (simp_all add: group0_def)

theorem SetRoutes_stores_unchecked_percent_witness:
  "fst (SetRoutes_g1 canary0 101 (- 1) False (world0 [primary_at 1000, canary_at 0])) = Return None
   \<and> stored_destinations canary0 (snd (SetRoutes_g1 canary0 101 (- 1) False (world0 [primary_at 1000, canary_at 0])))
       = Some [primary_at 1000, canary_at 4294967286]
   \<and> fst (SetRoutes_g2 canary0 500 (- 1) False (world0 [primary_at 1000, canary_at 0])) = None
   \<and> stored_destinations canary0 (snd (SetRoutes_g2 canary0 500 (- 1) False (world0 [primary_at 1000, canary_at 0])))
       = Some [primary_at 5000, canary_at 4294967286]"
proof -
  let ?w = "world0 [primary_at 1000, canary_at 0]"
  let ?g = "group0 1 [primary_at 1000, canary_at 0]"
  have rel: "faults ?w = []" by (simp add: world0_simps)
  have obj: "objects ?w (Canary_Namespace canary0, GetServiceNames canary0) = Some ?g"
    by (simp add: world0_simps canary0_simps)
  have nm: "ObjectMeta_Name ?g = GetServiceNames canary0" by (simp add: group0_simps canary0_simps)
  have f: "range_find (canaryName_of (GetServiceNames canary0) (Spec_Service_Port canary0))
             (Destinations (Spec ?g)) = Some (1, canary_at 0)"
    by (simp add: canary0_simps group0_simps canaryName_canary0 range_find_canary0)
  have nz1: "\<not> ((101::go_int) = 0 \<and> (- 1 :: go_int) = 0)" by simp
  have nz2: "\<not> ((500::go_int) = 0 \<and> (- 1 :: go_int) = 0)" by simp
  from SetRoutes_stores_unchecked_percent[OF nz1 rel obj nm, where i = 1 and dst = "canary_at 0" and m = False] f
       SetRoutes_stores_unchecked_percent[OF nz2 rel obj nm, where i = 1 and dst = "canary_at 0" and m = False]
  show ?thesis
    by (simp add: canary0_simps group0_simps canaryName_canary0 primaryName_canary0 uint32_of_int_def
          primary_at_def canary_at_def mk_WeightedDestination_def)
qed

subsection \<open>Evaluation on the concrete store\<close>

lemma dst0_simps:
  "upstream_name (primary_at a) = ''app-80''" "upstream_name (canary_at a) = ''app-canary-80''"
  "Weight (primary_at a) = a" "Weight (canary_at a) = a"
  by (simp_all add: upstream_name_def primary_at_def canary_at_def mk_WeightedDestination_def)

lemma mk_dst0:
  "mk_WeightedDestination ''app-80'' ''ns'' a = primary_at a"
  "mk_WeightedDestination ''app-canary-80'' ''ns'' a = canary_at a"
  by (simp_all add: primary_at_def canary_at_def)

lemma zero_Weight: "zero_WeightedDestination\<lparr>Weight := 0\<rparr> = zero_WeightedDestination"
  by (simp add: zero_WeightedDestination_def)

lemmas eval0 = canary0_simps world0_simps group0_simps dst0_simps canaryName_canary0 primaryName_canary0
  Get_reliable Update_reliable_version range_find_def stored_destinations_def Let_def mk_dst0

subsection \<open>GetRoutes when no entry bears the reference name\<close>

lemma GetRoutes_g1_DestinationNotFound:
  assumes "UpstreamGroups_Get (Canary_Namespace d) (Spec_TargetRef_Name d) w = (Inr g, w1)"
      and "2 \<le> length (Destinations (Spec g))"
      and "range_find (canaryName_of (Spec_TargetRef_Name d) (Spec_Service_Port d))
             (Destinations (Spec g)) = None"
  shows "GetRoutes_g1 d w = ((0, 0, False, Some DestinationNotFound), w1)"
  using assms by (simp add: GetRoutes_g1_def Let_def)

lemma GetRoutes_g2_primary_missing:
  assumes "UpstreamGroups_Get (Canary_Namespace d) (Spec_TargetRef_Name d) w = (Inr g, w1)"
      and "2 \<le> length (Destinations (Spec g))"
      and "range_find (primaryName_of (Spec_TargetRef_Name d) (Spec_Service_Port d))
             (Destinations (Spec g)) = None"
  shows "GetRoutes_g2 d w = ((0, 0, False, None), w1)"
    and "GetRoutes_p0 d w = ((0, 0, False, None), w1)"
  using assms by (simp_all add: GetRoutes_p0_eq_g2 GetRoutes_g2_def Let_def)

text \<open>
  Claim C7. With two entries named \<open>x\<close> and \<open>y\<close>, neither of them the primary's name
  \<open>app-80\<close>, GetRoutes of revisions g2 and p0 returns (0, 0, false) with a nil
  error, where the claim requires the DestinationNotFound error. Revision g1 returns that
  error (lemma \<open>GetRoutes_g1_DestinationNotFound\<close>); g2 and p0 return nil for every such
  group (lemma \<open>GetRoutes_g2_primary_missing\<close>).
\<close>

theorem GetRoutes_nil_error_when_primary_missing:
  "fst (GetRoutes_g2 canary0 (world0 [mk_WeightedDestination ''x'' ''ns'' 500, mk_WeightedDestination ''y'' ''ns'' 500]))
     = (0, 0, False, None)
   \<and> fst (GetRoutes_p0 canary0 (world0 [mk_WeightedDestination ''x'' ''ns'' 500, mk_WeightedDestination ''y'' ''ns'' 500]))
     = (0, 0, False, None)"
  by (simp add: GetRoutes_g2_def GetRoutes_p0_def eval0 upstream_name_def mk_WeightedDestination_def)

subsection \<open>The upsert of Reconcile\<close>

lemma Reconcile_g1_present:
  assumes "UpstreamGroups_Get (Canary_Namespace d) (GetServiceNames d) w = (Inr g, w1)"
      and "range_find (canaryName_of (GetServiceNames d) (Spec_Service_Port d))
             (Destinations (Spec g)) = Some x"
  shows "Reconcile_g1 d w = (None, w1)"
  using assms by (simp add: Reconcile_g1_def Let_def)

lemma Reconcile_g1_absent:
  assumes rel: "faults w = []"
      and obj: "objects w (Canary_Namespace d, GetServiceNames d) = Some g"
      and nm: "ObjectMeta_Name g = GetServiceNames d"
      and f: "range_find (canaryName_of (GetServiceNames d) (Spec_Service_Port d))
             (Destinations (Spec g)) = None"
  shows "fst (Reconcile_g1 d w) = None"
    and "stored_destinations d (snd (Reconcile_g1 d w)) =
           Some (Destinations (Spec g) @
                 [mk_WeightedDestination (canaryName_of (GetServiceNames d) (Spec_Service_Port d))
                    (Canary_Namespace d) 0])"
  using f
  by (simp_all add: Reconcile_g1_def Let_def Get_reliable[OF rel obj] Update_reliable_version
        rel obj nm stored_destinations_def)

lemma Reconcile_p0_absent:
  assumes rel: "faults w = []"
      and obj: "objects w (Canary_Namespace d, GetServiceNames d) = Some g"
      and nm: "ObjectMeta_Name g = GetServiceNames d"
      and f: "range_find (canaryName_of (GetServiceNames d) (Spec_Service_Port d))
             (Destinations (Spec g)) = None"
  shows "fst (Reconcile_p0 d w) = Return None"
    and "stored_destinations d (snd (Reconcile_p0 d w)) =
           Some (Destinations (Spec g) @
                 [mk_WeightedDestination (canaryName_of (GetServiceNames d) (Spec_Service_Port d))
                    (Canary_Namespace d) 0])"
  using f
  by (simp_all add: Reconcile_p0_def Let_def Get_reliable[OF rel obj] Update_reliable_version
        rel obj nm stored_destinations_def)

lemma Reconcile_p0_loop_pads:
  "i + length rest \<le> n \<Longrightarrow>
   Reconcile_p0_loop cn i rest (replicate (Suc n) zero_WeightedDestination @ pre)
     = Return (replicate (Suc n) zero_WeightedDestination @ pre @ rest)"
proof (induction rest arbitrary: i pre)
  case Nil
  then show ?case by simp
next
  case (Cons dst rest)
  let ?z = zero_WeightedDestination
  let ?app = "replicate (Suc n) ?z @ pre @ [dst]"
  from Cons.prems have i: "i < Suc n" and nxt: "Suc i + length rest \<le> n" by simp_all
  have at: "?app ! i = ?z" using i by (simp add: nth_append del: replicate_Suc)
  have same: "?app[i := (?app ! i)\<lparr>Weight := 0\<rparr>] = ?app"
    by (simp only: at zero_Weight) (metis at list_update_id)
  have ih: "Reconcile_p0_loop cn (Suc i) rest (replicate (Suc n) ?z @ (pre @ [dst]))
     = Return (replicate (Suc n) ?z @ (pre @ [dst]) @ rest)"
    using nxt by (rule Cons.IH)
  have len: "i < length ?app" using i by simp
  show ?case
  proof (cases "upstream_name dst = cn")
    case True
    have "Reconcile_p0_loop cn i (dst # rest) (replicate (Suc n) ?z @ pre)
        = Reconcile_p0_loop cn (Suc i) rest (?app[i := (?app ! i)\<lparr>Weight := 0\<rparr>])"
      using True len by (simp add: Let_def del: replicate_Suc)
    also have "\<dots> = Reconcile_p0_loop cn (Suc i) rest ?app" by (simp only: same)
    also have "\<dots> = Return (replicate (Suc n) ?z @ (pre @ [dst]) @ rest)" using ih by simp
    finally show ?thesis by simp
  next
    case False
    have "Reconcile_p0_loop cn i (dst # rest) (replicate (Suc n) ?z @ pre)
        = Reconcile_p0_loop cn (Suc i) rest ?app"
      using False by (simp add: Let_def del: replicate_Suc)
    also have "\<dots> = Return (replicate (Suc n) ?z @ (pre @ [dst]) @ rest)" using ih by simp
    finally show ?thesis by simp
  qed
qed

lemma Reconcile_p0_loop_make:
  "Reconcile_p0_loop cn 0 dsts (replicate (Suc (length dsts)) zero_WeightedDestination)
     = Return (replicate (Suc (length dsts)) zero_WeightedDestination @ dsts)"
  using Reconcile_p0_loop_pads[of 0 dsts "length dsts" cn "[]"] by simp

lemma Reconcile_p0_present:
  assumes rel: "faults w = []"
      and obj: "objects w (Canary_Namespace d, GetServiceNames d) = Some g"
      and nm: "ObjectMeta_Name g = GetServiceNames d"
      and f: "range_find (canaryName_of (GetServiceNames d) (Spec_Service_Port d))
             (Destinations (Spec g)) = Some x"
  shows "fst (Reconcile_p0 d w) = Return None"
    and "stored_destinations d (snd (Reconcile_p0 d w)) =
           Some (replicate (Suc (length (Destinations (Spec g)))) zero_WeightedDestination
                 @ Destinations (Spec g))"
  using f
  by (simp_all add: Reconcile_p0_def Let_def Get_reliable[OF rel obj] Update_reliable_version
        rel obj nm stored_destinations_def Reconcile_p0_loop_make del: replicate_Suc replicate.simps)

text \<open>
  Claim C5. On the list primary at 1000, canary at 300, where the canary entry is present,
  Reconcile of revision p0 sends and stores three zero-valued entries followed by the two
  original ones, where the claim requires the list to be left unchanged. The slice made
  with length \<open>len + 1\<close> is appended to, so its zero values stay in front (lemma
  \<open>Reconcile_p0_present\<close>, for every list). Revision g1 writes nothing when the entry is
  present (lemma \<open>Reconcile_g1_present\<close>), and both revisions append one canary entry at
  weight 0 when it is absent (lemmas \<open>Reconcile_g1_absent\<close>, \<open>Reconcile_p0_absent\<close>).
\<close>

theorem Reconcile_p0_pads_existing:
  "fst (Reconcile_p0 canary0 (world0 [primary_at 1000, canary_at 300])) = Return None
   \<and> stored_destinations canary0 (snd (Reconcile_p0 canary0 (world0 [primary_at 1000, canary_at 300])))
      = Some [zero_WeightedDestination, zero_WeightedDestination, zero_WeightedDestination,
              primary_at 1000, canary_at 300]"
  by (simp add: Reconcile_p0_def eval0 numeral_3_eq_3 zero_Weight)

subsection \<open>Finalize without a canary entry\<close>

lemma Finalize_g1_no_canary:
  assumes rel: "faults w = []"
      and obj: "objects w (Canary_Namespace d, GetServiceNames d) = Some g"
      and nm: "ObjectMeta_Name g = GetServiceNames d"
      and f: "range_find (canaryName_of (GetServiceNames d) (Spec_Service_Port d))
             (Destinations (Spec g)) = None"
  shows "fst (Finalize_g1 d w) = Return None"
    and "stored_destinations d (snd (Finalize_g1 d w)) = Some (Destinations (Spec g))"
  using f
  by (simp_all add: Finalize_g1_def Let_def Get_reliable[OF rel obj] Update_reliable_version
        rel obj nm stored_destinations_def)

lemma Finalize_p0_no_canary:
  assumes rel: "faults w = []"
      and obj: "objects w (Canary_Namespace d, GetServiceNames d) = Some g"
      and nm: "ObjectMeta_Name g = GetServiceNames d"
      and f: "range_find (canaryName_of (GetServiceNames d) (Spec_Service_Port d))
             (Destinations (Spec g)) = None"
      and ne: "Destinations (Spec g) \<noteq> []"
  shows "fst (Finalize_p0 d w) = Return None"
    and "stored_destinations d (snd (Finalize_p0 d w)) =
           Some (take (length (Destinations (Spec g)) - 1)
                   ((Destinations (Spec g))[0 := Destinations (Spec g) ! (length (Destinations (Spec g)) - 1)]))"
  using f ne
  by (simp_all add: Finalize_p0_def Let_def Get_reliable[OF rel obj] Update_reliable_version
        rel obj nm stored_destinations_def remove_dst_def)

text \<open>
  Claim C3. On the list holding the primary entry alone, with no canary entry, Finalize of
  revision p0 returns nil and stores the empty list: the primary entry is removed, where
  the claim requires every entry to survive. \<^verbatim>\<open>idx\<close> keeps its zero value when the loop
  finds nothing and \<^verbatim>\<open>remove\<close> is called all the same (lemma \<open>Finalize_p0_no_canary\<close>, for
  every non-empty list). Revision g1 stores the list as it was read (lemma
  \<open>Finalize_g1_no_canary\<close>).
\<close>

theorem Finalize_p0_removes_primary:
  "fst (Finalize_p0 canary0 (world0 [primary_at 1000])) = Return None
   \<and> stored_destinations canary0 (snd (Finalize_p0 canary0 (world0 [primary_at 1000]))) = Some []"
  by (simp add: Finalize_p0_def eval0 remove_dst_def)

subsection \<open>Panics\<close>

lemma Reconcile_p0_no_panic: "fst (Reconcile_p0 d w) \<noteq> Panic"
  by (simp add: Reconcile_p0_def Let_def Reconcile_p0_loop_make
           split: prod.split sum.split option.split exec.split del: replicate_Suc replicate.simps)

lemma SetRoutes_g1_no_panic: "fst (SetRoutes_g1 d p c m w) \<noteq> Panic"
  by (auto simp: SetRoutes_g1_def Let_def range_find_Some_iff
           split: prod.split sum.split option.split exec.split)

lemma remove_dst_in_range: "i < length s \<Longrightarrow> remove_dst s i \<noteq> Panic"
  by (auto simp: remove_dst_def)

lemma Finalize_g1_no_panic: "fst (Finalize_g1 d w) \<noteq> Panic"
  by (auto simp: Finalize_g1_def Let_def range_find_Some_iff remove_dst_def
           split: prod.split sum.split option.split exec.split)

lemma Finalize_p0_Panic_iff:
  assumes "UpstreamGroups_Get (Canary_Namespace d) (GetServiceNames d) w = (Inr g, w1)"
  shows "fst (Finalize_p0 d w) = Panic \<longleftrightarrow> Destinations (Spec g) = []"
  using assms
  by (auto simp: Finalize_p0_def Let_def range_find_Some_iff remove_dst_def
           split: prod.split sum.split option.split exec.split)

text \<open>
  Claim C4. On a group whose destination list is empty, Finalize of revision p0 panics:
  \<^verbatim>\<open>remove(s, 0)\<close> reads \<^verbatim>\<open>s[len(s)-1]\<close> of the empty slice. The claim requires every
  operation to return. Finalize of p0 panics exactly on the empty list (lemma
  \<open>Finalize_p0_Panic_iff\<close>); the other functions with an index expression never panic
  (lemmas \<open>Reconcile_p0_no_panic\<close>, \<open>SetRoutes_g1_no_panic\<close>, \<open>Finalize_g1_no_panic\<close>).
\<close>

theorem Finalize_p0_panics_on_empty:
  "fst (Finalize_p0 canary0 (world0 [])) = Panic"
  by (simp add: Finalize_p0_def eval0 remove_dst_def)

subsection \<open>Reconcile called twice\<close>

lemma updates_calls [simp]: "updates (w\<lparr>calls := cs\<rparr>) = length (filter is_update cs)"
  by (simp add: updates_def)

lemma updates_objects [simp]: "updates (w\<lparr>objects := os\<rparr>) = updates w"
  by (simp add: updates_def)

lemma Get_updates: "updates (snd (UpstreamGroups_Get ns n w)) = updates w"
  by (simp add: UpstreamGroups_Get_def next_fault_def Let_def updates_def split: list.split option.split)

lemma Update_updates: "updates (snd (UpstreamGroups_Update ns obj w)) = Suc (updates w)"
  by (simp add: UpstreamGroups_Update_def next_fault_def Let_def updates_def split: list.split option.split)

lemma Get_updates_D: "UpstreamGroups_Get ns n w = (r, w1) \<Longrightarrow> updates w1 = updates w"
  using Get_updates[of ns n w] by simp

lemma Update_updates_D: "UpstreamGroups_Update ns obj w = (r, w2) \<Longrightarrow> updates w2 = Suc (updates w)"
  using Update_updates[of ns obj w] by simp

text \<open>Revision g2: after a Reconcile that returned nil, the next Reconcile sends no
  Update, whatever the remote calls do; and one Reconcile sends at most one.\<close>

lemma Reconcile_g2_no_second_update:
  assumes first: "Reconcile_g2 d w = (None, w')"
      and nm: "\<And>g. objects w (Canary_Namespace d, GetServiceNames d) = Some g
                 \<Longrightarrow> ObjectMeta_Name g = GetServiceNames d"
  shows "updates (snd (Reconcile_g2 d w')) = updates w'"
proof -
  let ?ns = "Canary_Namespace d" and ?apex = "GetServiceNames d"
  let ?new = "two_entry_spec (primaryName_of ?apex (Spec_Service_Port d))
                (canaryName_of ?apex (Spec_Service_Port d)) ?ns 1000 0"
  obtain r w1 where get: "UpstreamGroups_Get ?ns ?apex w = (r, w1)" by (cases "UpstreamGroups_Get ?ns ?apex w")
  from first get obtain g where r: "r = Inr g"
    by (cases r) (auto simp: Reconcile_g2_def Let_def split: if_splits)
  note g = Get_Inr_D[OF get[unfolded r]]
  have stored: "\<exists>g'. objects w' (?ns, ?apex) = Some g' \<and> \<not> Diff_IgnoreFields_Weight ?new (Spec g')"
  proof (cases "Diff_IgnoreFields_Weight ?new (Spec g)")
    case False
    with first get r have "w' = w1" by (simp add: Reconcile_g2_def Let_def)
    with g False show ?thesis by simp
  next
    case True
    with first get r obtain u where
      upd: "UpstreamGroups_Update ?ns (g\<lparr>Spec := ?new\<rparr>) w1 = (Inr u, w')"
      by (auto simp: Reconcile_g2_def Let_def split: prod.splits sum.splits)
    have "ObjectMeta_Name g = ?apex" using g(1) by (rule nm)
    with Update_Inr_D(1)[OF upd] show ?thesis
      by (simp add: Diff_IgnoreFields_Weight_def)
  qed
  then obtain g' where g': "objects w' (?ns, ?apex) = Some g'"
    "\<not> Diff_IgnoreFields_Weight ?new (Spec g')" by blast
  obtain r2 w2 where get2: "UpstreamGroups_Get ?ns ?apex w' = (r2, w2)" by (cases "UpstreamGroups_Get ?ns ?apex w'")
  have w2: "updates w2 = updates w'" using Get_updates[of ?ns ?apex w'] get2 by simp
  show ?thesis
  proof (cases r2)
    case (Inl e)
    with get2 w2 show ?thesis by (simp add: Reconcile_g2_def Let_def)
  next
    case (Inr g2)
    with get2 have "objects w' (?ns, ?apex) = Some g2" by (simp add: Get_Inr_D)
    with g' have "g2 = g'" by simp
    with get2 Inr g' w2 show ?thesis by (simp add: Reconcile_g2_def Let_def)
  qed
qed

lemma Reconcile_g2_at_most_one_update: "updates (snd (Reconcile_g2 d w)) \<le> Suc (updates w)"
proof -
  let ?ns = "Canary_Namespace d" and ?apex = "GetServiceNames d"
  obtain r w1 where get: "UpstreamGroups_Get ?ns ?apex w = (r, w1)" by (cases "UpstreamGroups_Get ?ns ?apex w")
  have w1: "updates w1 = updates w" using Get_updates[of ?ns ?apex w] get by simp
  show ?thesis
  proof (cases r)
    case (Inl e)
    with get w1 show ?thesis by (simp add: Reconcile_g2_def Let_def)
  next
    case (Inr g)
    show ?thesis
      using get Inr w1
      by (auto simp: Reconcile_g2_def Let_def split: prod.splits sum.splits dest: Update_updates_D)
  qed
qed

lemma range_find_append_named:
  "upstream_name x = name \<Longrightarrow> \<exists>i y. range_find name (dsts @ [x]) = Some (i, y)"
  using range_find_None_iff[of name "dsts @ [x]"] by (cases "range_find name (dsts @ [x])") auto

lemma upstream_name_mk: "upstream_name (mk_WeightedDestination n ns wt) = n"
  by (simp add: upstream_name_def mk_WeightedDestination_def)

text \<open>Revision g1: the same, since the entry appended by the first call is found by the
  second.\<close>

lemma Reconcile_g1_no_second_update:
  assumes first: "Reconcile_g1 d w = (None, w')"
      and nm: "\<And>g. objects w (Canary_Namespace d, GetServiceNames d) = Some g
                 \<Longrightarrow> ObjectMeta_Name g = GetServiceNames d"
  shows "updates (snd (Reconcile_g1 d w')) = updates w'"
proof -
  let ?ns = "Canary_Namespace d" and ?apex = "GetServiceNames d"
  let ?cn = "canaryName_of ?apex (Spec_Service_Port d)"
  obtain r w1 where get: "UpstreamGroups_Get ?ns ?apex w = (r, w1)" by (cases "UpstreamGroups_Get ?ns ?apex w")
  from first get obtain g where r: "r = Inr g"
    by (cases r) (auto simp: Reconcile_g1_def Let_def split: if_splits)
  note g = Get_Inr_D[OF get[unfolded r]]
  have stored: "\<exists>g'. objects w' (?ns, ?apex) = Some g' \<and> range_find ?cn (Destinations (Spec g')) \<noteq> None"
  proof (cases "range_find ?cn (Destinations (Spec g))")
    case (Some x)
    with first get r have "w' = w1" by (simp add: Reconcile_g1_def Let_def)
    with g Some show ?thesis by simp
  next
    case None
    let ?g' = "g\<lparr>Spec := (Spec g)\<lparr>Destinations := Destinations (Spec g) @ [mk_WeightedDestination ?cn ?ns 0]\<rparr>\<rparr>"
    from None first get r obtain u where
      upd: "UpstreamGroups_Update ?ns ?g' w1 = (Inr u, w')"
      by (auto simp: Reconcile_g1_def Let_def split: prod.splits sum.splits)
    have "ObjectMeta_Name g = ?apex" using g(1) by (rule nm)
    with Update_Inr_D(1)[OF upd] show ?thesis
      by (simp add: range_find_append_named upstream_name_mk)
  qed
  then obtain g' where g': "objects w' (?ns, ?apex) = Some g'"
    "range_find ?cn (Destinations (Spec g')) \<noteq> None" by blast
  obtain r2 w2 where get2: "UpstreamGroups_Get ?ns ?apex w' = (r2, w2)" by (cases "UpstreamGroups_Get ?ns ?apex w'")
  have w2: "updates w2 = updates w'" using get2 by (rule Get_updates_D)
  show ?thesis
  proof (cases r2)
    case (Inl e)
    with get2 w2 show ?thesis by (simp add: Reconcile_g1_def Let_def)
  next
    case (Inr g2)
    with get2 have "objects w' (?ns, ?apex) = Some g2" by (simp add: Get_Inr_D)
    with g' have "g2 = g'" by simp
    with get2 Inr g' w2 show ?thesis by (auto simp: Reconcile_g1_def Let_def)
  qed
qed

text \<open>Revision p0: every Reconcile whose read succeeds sends an Update.\<close>

lemma Reconcile_p0_always_updates:
  assumes "UpstreamGroups_Get (Canary_Namespace d) (GetServiceNames d) w = (Inr g, w1)"
  shows "updates (snd (Reconcile_p0 d w)) = Suc (updates w)"
  using assms Get_updates_D[OF assms]
  by (auto simp: Reconcile_p0_def Let_def Reconcile_p0_loop_make
           split: prod.splits sum.splits option.splits dest: Update_updates_D
           simp del: replicate_Suc replicate.simps)

text \<open>
  Claim C2. On the list primary at 1000, canary at 0, two calls of Reconcile of revision
  p0 in succession both return nil and send two Updates, where the claim allows at most
  one: p0 has no comparison of the desired with the stored shape and updates after every
  successful read (lemma \<open>Reconcile_p0_always_updates\<close>). Revisions g1 and g2 send no
  Update in a call that follows a successful one (lemmas \<open>Reconcile_g1_no_second_update\<close>,
  \<open>Reconcile_g2_no_second_update\<close>).
\<close>

theorem Reconcile_p0_twice_two_updates:
  "fst (Reconcile_p0 canary0 (world0 [primary_at 1000, canary_at 0])) = Return None
   \<and> fst (Reconcile_p0 canary0 (snd (Reconcile_p0 canary0 (world0 [primary_at 1000, canary_at 0])))) = Return None
   \<and> updates (snd (Reconcile_p0 canary0 (snd (Reconcile_p0 canary0 (world0 [primary_at 1000, canary_at 0]))))) = 2"
  by (simp add: Reconcile_p0_def eval0 updates_def zero_Weight)

subsection \<open>SetRoutes followed by GetRoutes\<close>

text \<open>Percents that are not negative and sum to 100 survive the conversion to the internal
  scale and back.\<close>

lemma uint_nonneg_sint:
  fixes p :: go_int
  assumes "0 \<le> sint p"
  shows "uint p = sint p" "uint p < 2 ^ 63"
proof -
  have lt: "sint p < 2 ^ 63" using sint_lt[of p] by simp
  have "sint p < 2 ^ 64" using lt by (rule less_le_trans) simp
  then have "take_bit 64 (sint p) = sint p" using assms by (simp add: take_bit_int_eq_self)
  then show "uint p = sint p" using uint_sint[of p] by simp
  then show "uint p < 2 ^ 63" using lt by simp
qed

lemma percent_le_100:
  fixes p c :: go_int
  assumes p: "0 \<le> sint p" and c: "0 \<le> sint c" and sum: "p + c = 100"
  shows "sint p \<le> 100"
proof -
  have "uint p + uint c < 2 ^ 64"
    using uint_nonneg_sint(2)[OF p] uint_nonneg_sint(2)[OF c] by simp
  then have "uint (p + c) = uint p + uint c"
    by (simp add: uint_word_ariths)
  then have "uint p + uint c = 100" using sum by simp
  then have "uint p \<le> 100" using uint_nonneg_sint(1)[OF c] c by linarith
  then show ?thesis using uint_nonneg_sint(1)[OF p] by simp
qed

lemma percent_round_trip:
  fixes p c :: go_int
  assumes p: "0 \<le> sint p" and c: "0 \<le> sint c" and sum: "p + c = 100"
  shows "go_div (int_of_uint32 (uint32_of_int (p * 10))) 10 = p"
proof -
  have le: "sint p \<le> 100" using p c sum by (rule percent_le_100)
  have "sint p * 10 < 2 ^ 32" using le by simp
  then have "(sint p * 10) mod 2 ^ 32 = sint p * 10" using p by simp
  then have u: "uint (uint32_of_int (p * 10)) = sint p * 10"
    by (simp only: uint_uint32_of_int_times_10)
  have "unat (uint32_of_int (p * 10)) = nat (sint p * 10)"
    using u by (metis nat_uint_eq)
  then have "unat (uint32_of_int (p * 10)) div 10 = nat (sint p)"
    using p by (simp add: nat_mult_distrib)
  then have "go_div (int_of_uint32 (uint32_of_int (p * 10))) 10 = word_of_nat (nat (sint p))"
    by (simp only: go_div_10)
  also have "\<dots> = word_of_int (sint p)" using p by simp
  also have "\<dots> = p" by simp
  finally show ?thesis .
qed

lemma percent_counterpart:
  fixes p c :: go_int
  shows "p + c = 100 \<Longrightarrow> 100 - p = c" "p + c = 100 \<Longrightarrow> 100 - c = p"
proof -
  assume "p + c = 100"
  then have "100 - p = p + c - p" by simp
  then show "100 - p = c" by simp
next
  assume "p + c = 100"
  then have "100 - c = p + c - c" by simp
  then show "100 - c = p" by simp
qed

lemma percents_not_both_zero:
  fixes p c :: go_int
  shows "p + c = 100 \<Longrightarrow> \<not> (p = 0 \<and> c = 0)"
  by auto

text \<open>Revision g2: the two entries written are read back as the percents given.\<close>

lemma range_find_primary_first:
  "range_find n (mk_WeightedDestination n ns wt # rest) = Some (0, mk_WeightedDestination n ns wt)"
  by (simp add: range_find_def upstream_name_mk)

lemma Weight_mk: "Weight (mk_WeightedDestination n ns wt) = wt"
  by (simp add: mk_WeightedDestination_def)

lemma SetRoutes_then_GetRoutes_g2:
  assumes p: "0 \<le> sint p" and c: "0 \<le> sint c" and sum: "p + c = 100"
      and rel: "faults w = []"
      and obj: "objects w (Canary_Namespace d, GetServiceNames d) = Some g"
      and nm: "ObjectMeta_Name g = GetServiceNames d"
  shows "fst (SetRoutes_g2 d p c m w) = None"
    and "fst (GetRoutes_g2 d (snd (SetRoutes_g2 d p c m w))) = (p, c, False, None)"
proof -
  have nz: "\<not> (p = 0 \<and> c = 0)" using sum by (rule percents_not_both_zero)
  let ?ns = "Canary_Namespace d" and ?apex = "GetServiceNames d"
  let ?spec = "two_entry_spec (primaryName_of ?apex (Spec_Service_Port d))
                 (canaryName_of ?apex (Spec_Service_Port d)) ?ns
                 (uint32_of_int (p * 10)) (uint32_of_int (c * 10))"
  let ?g' = "g\<lparr>Spec := ?spec\<rparr>"
  let ?w' = "w\<lparr>calls := calls w @ [GetCall ?ns ?apex, UpdateCall ?ns ?g'],
               objects := (objects w)((?ns, ?apex) := Some (?g'\<lparr>ResourceVersion := Suc (ResourceVersion g)\<rparr>))\<rparr>"
  have run: "SetRoutes_g2 d p c m w = (None, ?w')"
    using nz
    by (auto simp: SetRoutes_g2_def Let_def Get_reliable[OF rel obj] Update_reliable_version rel obj nm)
  show "fst (SetRoutes_g2 d p c m w) = None" by (simp add: run)
  have get: "UpstreamGroups_Get ?ns (Spec_TargetRef_Name d) ?w'
        = (Inr (?g'\<lparr>ResourceVersion := Suc (ResourceVersion g)\<rparr>),
           ?w'\<lparr>calls := calls ?w' @ [GetCall ?ns (Spec_TargetRef_Name d)]\<rparr>)"
    by (rule Get_reliable) (simp_all add: rel GetServiceNames_def)
  have "fst (GetRoutes_g2 d ?w') = (go_div (int_of_uint32 (uint32_of_int (p * 10))) 10,
          100 - go_div (int_of_uint32 (uint32_of_int (p * 10))) 10, False, None)"
    unfolding GetRoutes_g2_def Let_def
    by (simp only: get)
       (simp add: two_entry_spec_def GetServiceNames_def range_find_primary_first Weight_mk)
  then show "fst (GetRoutes_g2 d (snd (SetRoutes_g2 d p c m w))) = (p, c, False, None)"
    by (simp add: run percent_round_trip[OF p c sum] percent_counterpart(1)[OF sum])
qed

text \<open>Revision g1: the same, on a group that holds an entry with the primary name and one
  with the canary name.\<close>

lemma names_distinct: "primaryName_of a port \<noteq> canaryName_of a port"
proof
  assume "primaryName_of a port = canaryName_of a port"
  then have "length (primaryName_of a port) = length (canaryName_of a port)" by simp
  then show False by (simp add: primaryName_of_def canaryName_of_def)
qed

lemma two_named_entries:
  assumes "a \<in> set dsts" "b \<in> set dsts" "upstream_name a \<noteq> upstream_name b"
  shows "2 \<le> length dsts"
proof (cases dsts)
  case Nil
  with assms show ?thesis by simp
next
  case (Cons x xs)
  with assms show ?thesis by (cases xs) auto
qed

lemma range_find_present:
  assumes "x \<in> set dsts" "upstream_name x = name"
  shows "\<exists>i dst. range_find name dsts = Some (i, dst)"
  using assms range_find_None_iff[of name dsts] by (cases "range_find name dsts") auto

lemma range_find_update_Weight:
  assumes "range_find name dsts = Some (i, dst)"
  shows "range_find name (dsts[i := dst\<lparr>Weight := wt\<rparr>]) = Some (i, dst\<lparr>Weight := wt\<rparr>)"
  using assms by (auto simp: range_find_Some_iff upstream_name_def)

lemma SetRoutes_then_GetRoutes_g1:
  assumes p: "0 \<le> sint p" and c: "0 \<le> sint c" and sum: "p + c = 100"
      and rel: "faults w = []"
      and obj: "objects w (Canary_Namespace d, GetServiceNames d) = Some g"
      and nm: "ObjectMeta_Name g = GetServiceNames d"
      and pd: "pd \<in> set (Destinations (Spec g))"
              "upstream_name pd = primaryName_of (GetServiceNames d) (Spec_Service_Port d)"
      and cd: "cd \<in> set (Destinations (Spec g))"
              "upstream_name cd = canaryName_of (GetServiceNames d) (Spec_Service_Port d)"
  shows "fst (SetRoutes_g1 d p c m w) = Return None"
    and "fst (GetRoutes_g1 d (snd (SetRoutes_g1 d p c m w))) = (p, c, False, None)"
proof -
  have nz: "\<not> (p = 0 \<and> c = 0)" using sum by (rule percents_not_both_zero)
  let ?ns = "Canary_Namespace d" and ?apex = "GetServiceNames d"
  let ?cn = "canaryName_of ?apex (Spec_Service_Port d)"
  let ?dsts = "Destinations (Spec g)"
  have two: "2 \<le> length ?dsts"
    using pd(1) cd(1) by (rule two_named_entries) (simp add: pd cd names_distinct)
  obtain i dst where f: "range_find ?cn ?dsts = Some (i, dst)"
    using range_find_present[OF cd] by blast
  then have i: "i < length ?dsts" "?dsts ! i = dst" by (simp_all add: range_find_index)
  let ?dsts' = "?dsts[i := dst\<lparr>Weight := uint32_of_int (c * 10)\<rparr>]"
  let ?g' = "g\<lparr>Spec := (Spec g)\<lparr>Destinations := ?dsts'\<rparr>\<rparr>"
  let ?w' = "w\<lparr>calls := calls w @ [GetCall ?ns ?apex, UpdateCall ?ns ?g'],
               objects := (objects w)((?ns, ?apex) := Some (?g'\<lparr>ResourceVersion := Suc (ResourceVersion g)\<rparr>))\<rparr>"
  have run: "SetRoutes_g1 d p c m w = (Return None, ?w')"
    using nz f i
    by (auto simp: SetRoutes_g1_def Let_def Get_reliable[OF rel obj] Update_reliable_version rel obj nm)
  show "fst (SetRoutes_g1 d p c m w) = Return None" by (simp add: run)
  have get: "UpstreamGroups_Get ?ns (Spec_TargetRef_Name d) ?w'
        = (Inr (?g'\<lparr>ResourceVersion := Suc (ResourceVersion g)\<rparr>),
           ?w'\<lparr>calls := calls ?w' @ [GetCall ?ns (Spec_TargetRef_Name d)]\<rparr>)"
    by (rule Get_reliable) (simp_all add: rel GetServiceNames_def)
  have f': "range_find (canaryName_of (Spec_TargetRef_Name d) (Spec_Service_Port d)) ?dsts'
              = Some (i, dst\<lparr>Weight := uint32_of_int (c * 10)\<rparr>)"
    using range_find_update_Weight[OF f] by (simp add: GetServiceNames_def)
  have "fst (GetRoutes_g1 d ?w') = (100 - go_div (int_of_uint32 (uint32_of_int (c * 10))) 10,
          go_div (int_of_uint32 (uint32_of_int (c * 10))) 10, False, None)"
    unfolding GetRoutes_g1_def Let_def
    using two by (simp only: get) (simp add: f' not_less)
  moreover have sum': "c + p = 100" using sum by (simp add: add.commute)
  ultimately show "fst (GetRoutes_g1 d (snd (SetRoutes_g1 d p c m w))) = (p, c, False, None)"
    by (simp add: run percent_round_trip[OF c p sum'] percent_counterpart(2)[OF sum])
qed

text \<open>Revision p0: SetRoutes sends back the list as it was read.\<close>

lemma SetRoutes_p0_loop_slice: "fst (SetRoutes_p0_loop cn wt s xs) = s"
  by (induction xs) simp_all

lemma SetRoutes_p0_writes_nothing:
  assumes nz: "\<not> (p = 0 \<and> c = 0)"
      and rel: "faults w = []"
      and obj: "objects w (Canary_Namespace d, GetServiceNames d) = Some g"
      and nm: "ObjectMeta_Name g = GetServiceNames d"
  shows "fst (SetRoutes_p0 d p c m w) = None"
    and "stored_destinations d (snd (SetRoutes_p0 d p c m w)) = Some (Destinations (Spec g))"
  using nz
  by (auto simp: SetRoutes_p0_def Let_def Get_reliable[OF rel obj] Update_reliable_version rel obj nm
        stored_destinations_def split_beta SetRoutes_p0_loop_slice)

text \<open>
  Claim C1. On the list primary at 1000, canary at 0, SetRoutes(d, 70, 30, false) of
  revision p0 returns nil and leaves the stored list as it was, and the GetRoutes that
  follows returns (100, 0, false) with a nil error, where the claim requires (70, 30,
  false): the loop assigns the new weight to its own copy of the entry (lemma
  \<open>SetRoutes_p0_writes_nothing\<close>, for every list and every percents). Revisions g1 and g2
  return the percents given (lemmas \<open>SetRoutes_then_GetRoutes_g1\<close>,
  \<open>SetRoutes_then_GetRoutes_g2\<close>).
\<close>

theorem SetRoutes_p0_no_round_trip:
  "fst (SetRoutes_p0 canary0 70 30 False (world0 [primary_at 1000, canary_at 0])) = None
   \<and> stored_destinations canary0 (snd (SetRoutes_p0 canary0 70 30 False (world0 [primary_at 1000, canary_at 0])))
       = Some [primary_at 1000, canary_at 0]
   \<and> fst (GetRoutes_p0 canary0 (snd (SetRoutes_p0 canary0 70 30 False (world0 [primary_at 1000, canary_at 0]))))
       = (100, 0, False, None)"
  by (simp add: SetRoutes_p0_def GetRoutes_p0_def eval0 go_div_10 split_beta SetRoutes_p0_loop_slice)

end
